theory Spec2Isabelle
  imports Complex_Main "HOL-Library.Sublist"
begin

section \<open>JavaScript values used by the Oura integration\<close>

text \<open>
  A field declared \<^verbatim>\<open>f?: T | null\<close> has three states in the source: the key is
  absent (\<^verbatim>\<open>undefined\<close>), the key holds \<^verbatim>\<open>null\<close>, or it holds a value. The source
  tests the two empty states separately (\<^verbatim>\<open>!== null\<close>, \<^verbatim>\<open>!== undefined\<close>), so the model
  keeps them apart.
\<close>

datatype 'a opt = Undefined | Null | Val 'a

text \<open>
  The numeric fields read by the health summary (scores, step counts, seconds of high
  stress) are non-negative integers in the API and are modelled as \<^typ>\<open>nat\<close>. A quotient
  of two of them is an exact rational; the IEEE rounding of the JavaScript division is
  not modelled. \<^verbatim>\<open>Math.round\<close> rounds to the nearest integer, halves upwards.
\<close>

definition Math_round :: "rat \<Rightarrow> int" where
  "Math_round x = \<lfloor>x + 1 / 2\<rfloor>"

text \<open>\<^verbatim>\<open>x || 0\<close> on an optional number.\<close>

fun or_zero :: "nat opt \<Rightarrow> nat" where
  "or_zero (Val n) = n"
| "or_zero Null = 0"
| "or_zero Undefined = 0"

text \<open>
  Strings are byte lists; a character outside ASCII is written as its UTF-8 bytes.
  \<^verbatim>\<open>digits\<close> is the decimal numeral of a natural number, \<^verbatim>\<open>toString\<close> the conversion
  that a template literal applies to an integer, and \<^verbatim>\<open>toLocaleString\<close> the grouping
  of the \<^verbatim>\<open>en-US\<close> locale (the default of the runtime): commas between groups of three
  digits.
\<close>

fun digits :: "nat \<Rightarrow> string" where
  "digits n =
     (if n < 10 then [''0123456789'' ! n]
      else digits (n div 10) @ [''0123456789'' ! (n mod 10)])"

definition toString :: "int \<Rightarrow> string" where
  "toString i = (if i < 0 then ''-'' @ digits (nat (- i)) else digits (nat i))"

definition group_of_three :: "nat \<Rightarrow> string" where
  "group_of_three n =
     [''0123456789'' ! (n div 100 mod 10), ''0123456789'' ! (n div 10 mod 10),
      ''0123456789'' ! (n mod 10)]"

fun grouped :: "nat \<Rightarrow> string" where
  "grouped n =
     (if n < 1000 then digits n
      else grouped (n div 1000) @ '','' @ group_of_three (n mod 1000))"

definition toLocaleString :: "int \<Rightarrow> string" where
  "toLocaleString i = (if i < 0 then ''-'' @ grouped (nat (- i)) else grouped (nat i))"

text \<open>
  \<^verbatim>\<open>Array.prototype.sort(compareFn)\<close>: the sort is stable, elements that are
  \<^verbatim>\<open>undefined\<close> are moved behind all others without a call of the comparator, and
  \<^verbatim>\<open>x\<close> is placed before \<^verbatim>\<open>y\<close> when \<^verbatim>\<open>compareFn(x, y) <= 0\<close>. The elements are read
  before the first comparison and written back after the last one, so a comparator that
  inspects the array sees its original contents. \<^verbatim>\<open>Array.prototype.pop\<close> returns the
  last element, or \<^verbatim>\<open>undefined\<close> for an empty array.
\<close>

fun insert_stable :: "('a \<Rightarrow> 'a \<Rightarrow> int) \<Rightarrow> 'a \<Rightarrow> 'a list \<Rightarrow> 'a list" where
  "insert_stable compareFn x [] = [x]"
| "insert_stable compareFn x (y # ys) =
     (if compareFn x y \<le> 0 then x # y # ys else y # insert_stable compareFn x ys)"

definition stable_sort :: "('a \<Rightarrow> 'a \<Rightarrow> int) \<Rightarrow> 'a list \<Rightarrow> 'a list" where
  "stable_sort compareFn xs = foldr (insert_stable compareFn) xs []"

definition Array_sort :: "('a opt \<Rightarrow> 'a opt \<Rightarrow> int) \<Rightarrow> 'a opt list \<Rightarrow> 'a opt list" where
  "Array_sort compareFn xs =
     stable_sort compareFn (filter (\<lambda>x. x \<noteq> Undefined) xs) @ filter (\<lambda>x. x = Undefined) xs"

definition Array_pop :: "'a opt list \<Rightarrow> 'a opt" where
  "Array_pop xs = (if xs = [] then Undefined else last xs)"

section \<open>Data model (types.ts)\<close>

text \<open>
  Of each daily record only the fields that the modelled functions read are kept.
  Field names shared by several records are written with the record's name in front.
\<close>

record DailySleepModel =
  day :: string
  score :: "nat opt"

record DailyActivityModel =
  day :: string
  score :: "nat opt"
  steps :: nat

datatype DailyStressSummary = restored | normal | stressful

fun summary_text :: "DailyStressSummary \<Rightarrow> string" where
  "summary_text restored = ''restored''"
| "summary_text normal = ''normal''"
| "summary_text stressful = ''stressful''"

record DailyStressModel =
  day :: string
  stress_high :: "nat opt"
  recovery_high :: "nat opt"
  day_summary :: "DailyStressSummary opt"

record DailyReadinessModel =
  day :: string
  score :: "nat opt"

record 'a MultiDocumentResponse =
  data :: "'a list"
  next_token :: "string opt"

record DateRange =
  start_date :: string
  end_date :: string

section \<open>Errors and requests (oura.ts, makeOuraRequest)\<close>

text \<open>
  A thrown value is either the \<^verbatim>\<open>OuraAPIUserError\<close> of the source (technical message,
  message for the user) or any other error. A promise that rejects is \<open>Inl\<close>.
\<close>

datatype js_error = OuraAPIUserError string string | OtherError string

text \<open>
  The network is a parameter: \<^verbatim>\<open>fetch\<close> receives the address, the query parameters and
  the headers, and either rejects or yields a response. Reading the body as text or as
  JSON may reject as well.
\<close>

record 'a Response =
  ok :: bool
  status :: nat
  statusText :: string
  text_body :: "js_error + string"
  json_body :: "js_error + 'a"

type_synonym 'a fetch =
  "string \<Rightarrow> (string \<times> string) list \<Rightarrow> (string \<times> string) list \<Rightarrow> js_error + 'a Response"

definition bullet :: string where
  "bullet = [CHR 0xE2, CHR 0x80, CHR 0xA2]"

definition setup_required_message :: string where
  "setup_required_message =
     [CHR 0xF0, CHR 0x9F, CHR 0x94, CHR 0x91] @
     '' **Setup Required**: Please configure your Oura API token.\<newline>\<newline>'' @
     ''**Steps to fix:**\<newline>'' @
     ''1. Get your token from [Oura Cloud](https://cloud.ouraring.com/personal-access-tokens)\<newline>'' @
     ''2. Add it to your `.dev.vars` file as `OURA_API_TOKEN=your_token_here`\<newline>'' @
     ''3. Restart the application\<newline>\<newline>'' @
     ''*This is a one-time setup step required to access your Oura Ring data.*''"

definition authentication_failed_message :: string where
  "authentication_failed_message =
     [CHR 0xF0, CHR 0x9F, CHR 0x9A, CHR 0xAB] @
     '' **Authentication Failed**: Your Oura API token is invalid or expired.\<newline>\<newline>'' @
     ''**Steps to fix:**\<newline>'' @
     ''1. Check your token at [Oura Cloud](https://cloud.ouraring.com/personal-access-tokens)\<newline>'' @
     ''2. Generate a new token if needed\<newline>'' @
     ''3. Update your `.dev.vars` file with the new token\<newline>'' @
     ''4. Restart the application''"

definition access_denied_message :: string where
  "access_denied_message =
     [CHR 0xE2, CHR 0x9B, CHR 0x94] @
     '' **Access Denied**: Cannot access your Oura data.\<newline>\<newline>'' @
     ''**Possible causes:**\<newline>'' @
     bullet @ '' Your Oura subscription may have expired\<newline>'' @
     bullet @ '' Your API token doesn't have the required permissions\<newline>'' @
     bullet @ '' Your account may be restricted\<newline>\<newline>'' @
     ''*Please check your Oura account status and token permissions.*''"

definition rate_limit_message :: string where
  "rate_limit_message =
     [CHR 0xE2, CHR 0x8F, CHR 0xB3] @
     '' **Rate Limit Reached**: Too many requests to the Oura API.\<newline>\<newline>'' @
     ''Please wait a few minutes before trying again. The Oura API allows 5000 requests per 5-minute period.''"

definition cross_mark :: string where
  "cross_mark = [CHR 0xE2, CHR 0x9D, CHR 0x8C]"

definition truthy :: "string option \<Rightarrow> bool" where
  "truthy s = (case s of None \<Rightarrow> False | Some v \<Rightarrow> v \<noteq> [])"

definition makeOuraRequest ::
  "string option \<Rightarrow> 'a fetch \<Rightarrow> string \<Rightarrow> (string \<times> string) list \<Rightarrow> js_error + 'a" where
  "makeOuraRequest API_TOKEN fetch endpoint params =
     (if \<not> truthy API_TOKEN then
        Inl (OuraAPIUserError ''Oura API token not configured'' setup_required_message)
      else
        (case fetch (''https://api.ouraring.com/v2'' @ endpoint) params
                [(''Authorization'', ''Bearer '' @ the API_TOKEN),
                 (''Content-Type'', ''application/json'')] of
           Inl e \<Rightarrow> Inl e
         | Inr response \<Rightarrow>
             if \<not> ok response then
               if status response = 401 then
                 Inl (OuraAPIUserError ''Invalid Oura API token'' authentication_failed_message)
               else if status response = 403 then
                 Inl (OuraAPIUserError ''Access forbidden'' access_denied_message)
               else if status response = 429 then
                 Inl (OuraAPIUserError ''Rate limit exceeded'' rate_limit_message)
               else
                 (let errorMessage =
                        ''Oura API error: '' @ digits (status response) @ '' '' @
                        statusText response;
                      errorMessage =
                        (case text_body response of
                           Inr errorBody \<Rightarrow>
                             if errorBody \<noteq> [] then
                               errorMessage @ ''\<newline>Details: '' @ errorBody
                             else errorMessage
                         | Inl _ \<Rightarrow> errorMessage)
                  in Inl (OuraAPIUserError errorMessage
                       (cross_mark @ '' **API Error**: Unable to fetch your Oura data ('' @
                        digits (status response) @ '').\<newline>\<newline>'' @
                        ''This might be a temporary issue. Please try again in a few moments.'')))
             else json_body response))"

text \<open>One settled outcome of \<^verbatim>\<open>Promise.allSettled\<close>.\<close>

datatype 'a PromiseSettledResult = Fulfilled 'a | Rejected js_error

fun settled :: "js_error + 'a \<Rightarrow> 'a PromiseSettledResult" where
  "settled (Inr v) = Fulfilled v"
| "settled (Inl e) = Rejected e"

fun settled_status :: "'a PromiseSettledResult \<Rightarrow> string" where
  "settled_status (Fulfilled v) = ''fulfilled''"
| "settled_status (Rejected e) = ''rejected''"

section \<open>The health summary (oura.ts, executeGetOuraHealthSummary)\<close>

definition sleep_emoji :: string where
  "sleep_emoji = [CHR 0xF0, CHR 0x9F, CHR 0x98, CHR 0xB4]"

definition activity_emoji :: string where
  "activity_emoji = [CHR 0xF0, CHR 0x9F, CHR 0x8F, CHR 0x83]"

definition stress_emoji :: string where
  "stress_emoji = [CHR 0xF0, CHR 0x9F, CHR 0x98, CHR 0xB0]"

definition readiness_emoji :: string where
  "readiness_emoji = [CHR 0xE2, CHR 0x9A, CHR 0xA1]"

definition chart_emoji :: string where
  "chart_emoji = [CHR 0xF0, CHR 0x9F, CHR 0x93, CHR 0x8A]"

definition calendar_emoji :: string where
  "calendar_emoji = [CHR 0xF0, CHR 0x9F, CHR 0x93, CHR 0x85]"

definition bulb_emoji :: string where
  "bulb_emoji = [CHR 0xF0, CHR 0x9F, CHR 0x92, CHR 0xA1]"

text \<open>
  Each block of the function that appends to \<^verbatim>\<open>response\<close> is one definition, named
  after the comment that introduces the block; the function concatenates them in the
  order of the source.
\<close>

definition processSleepData ::
  "DailySleepModel MultiDocumentResponse PromiseSettledResult \<Rightarrow> string" where
  "processSleepData sleepResponse =
     (case sleepResponse of
        Fulfilled v \<Rightarrow>
          if length (data v) > 0 then
            (let validSleepData =
                   filter (\<lambda>d. DailySleepModel.score d \<noteq> Null \<and>
                               DailySleepModel.score d \<noteq> Undefined) (data v)
             in if length validSleepData > 0 then
                  (let avgSleepScore =
                         rat_of_nat (foldl (\<lambda>sum d. sum + or_zero (DailySleepModel.score d)) 0
                                       validSleepData) /
                         rat_of_nat (length validSleepData)
                   in sleep_emoji @ '' **Sleep**: Average score '' @
                      toString (Math_round avgSleepScore) @ ''/100 ('' @
                      toString (int (length (data v))) @ '' days)\<newline>'')
                else sleep_emoji @ '' **Sleep**: Data available but no scores calculated\<newline>'')
          else sleep_emoji @ '' **Sleep**: No data available\<newline>''
      | Rejected e \<Rightarrow> sleep_emoji @ '' **Sleep**: No data available\<newline>'')"

definition processActivityData ::
  "DailyActivityModel MultiDocumentResponse PromiseSettledResult \<Rightarrow> string" where
  "processActivityData activityResponse =
     (case activityResponse of
        Fulfilled v \<Rightarrow>
          if length (data v) > 0 then
            (let validActivityData =
                   filter (\<lambda>d. DailyActivityModel.score d \<noteq> Null \<and>
                               DailyActivityModel.score d \<noteq> Undefined) (data v)
             in if length validActivityData > 0 then
                  (let avgActivityScore =
                         rat_of_nat (foldl (\<lambda>sum d. sum + or_zero (DailyActivityModel.score d)) 0
                                       validActivityData) /
                         rat_of_nat (length validActivityData);
                       totalSteps = foldl (\<lambda>sum d. sum + steps d) 0 (data v);
                       avgSteps = Math_round (rat_of_nat totalSteps / rat_of_nat (length (data v)))
                   in activity_emoji @ '' **Activity**: Average score '' @
                      toString (Math_round avgActivityScore) @ ''/100, '' @
                      toLocaleString avgSteps @ '' avg steps/day\<newline>'')
                else
                  (let totalSteps = foldl (\<lambda>sum d. sum + steps d) 0 (data v);
                       avgSteps = Math_round (rat_of_nat totalSteps / rat_of_nat (length (data v)))
                   in activity_emoji @ '' **Activity**: '' @ toLocaleString avgSteps @
                      '' avg steps/day (no scores available)\<newline>''))
          else activity_emoji @ '' **Activity**: No data available\<newline>''
      | Rejected e \<Rightarrow> activity_emoji @ '' **Activity**: No data available\<newline>'')"

text \<open>
  The most frequent day classification: the labels of all records except those that
  are \<^verbatim>\<open>null\<close>, sorted by the number of their occurrences, last element.
\<close>

definition mostCommonSummary :: "DailyStressModel list \<Rightarrow> DailyStressSummary opt" where
  "mostCommonSummary stressData =
     (let summaries = filter (\<lambda>s. s \<noteq> Null) (map day_summary stressData)
      in if length summaries > 0 then
           Array_pop (Array_sort
             (\<lambda>a b. int (length (filter (\<lambda>v. v = a) summaries)) -
                    int (length (filter (\<lambda>v. v = b) summaries)))
             summaries)
         else Null)"

text \<open>\<^verbatim>\<open>mostCommonSummary || 'N/A'\<close>: every label is a non-empty string, hence truthy.\<close>

fun or_NA :: "DailyStressSummary opt \<Rightarrow> string" where
  "or_NA (Val s) = summary_text s"
| "or_NA Null = ''N/A''"
| "or_NA Undefined = ''N/A''"

definition processStressData ::
  "DailyStressModel MultiDocumentResponse PromiseSettledResult \<Rightarrow> string" where
  "processStressData stressResponse =
     (case stressResponse of
        Fulfilled v \<Rightarrow>
          if length (data v) > 0 then
            (let stressData = data v;
                 validStressData =
                   filter (\<lambda>d. stress_high d \<noteq> Null \<and> stress_high d \<noteq> Undefined) stressData
             in if length validStressData > 0 then
                  (let avgStressTime =
                         rat_of_nat (foldl (\<lambda>sum d. sum + or_zero (stress_high d)) 0
                                       validStressData) /
                         rat_of_nat (length validStressData)
                   in stress_emoji @ '' **Stress**: '' @
                      toString (Math_round (avgStressTime / 60)) @ '' avg minutes/day, mostly '' @
                      or_NA (mostCommonSummary stressData) @ ''\<newline>'')
                else stress_emoji @ '' **Stress**: Data available but no stress times calculated\<newline>'')
          else stress_emoji @ '' **Stress**: No data available\<newline>''
      | Rejected e \<Rightarrow> stress_emoji @ '' **Stress**: No data available\<newline>'')"

definition processReadinessData ::
  "DailyReadinessModel MultiDocumentResponse PromiseSettledResult \<Rightarrow> string" where
  "processReadinessData readinessResponse =
     (case readinessResponse of
        Fulfilled v \<Rightarrow>
          if length (data v) > 0 then
            (let validReadinessData =
                   filter (\<lambda>d. DailyReadinessModel.score d \<noteq> Null \<and>
                               DailyReadinessModel.score d \<noteq> Undefined) (data v)
             in if length validReadinessData > 0 then
                  (let avgReadinessScore =
                         rat_of_nat (foldl (\<lambda>sum d. sum + or_zero (DailyReadinessModel.score d)) 0
                                       validReadinessData) /
                         rat_of_nat (length validReadinessData)
                   in readiness_emoji @ '' **Readiness**: Average score '' @
                      toString (Math_round avgReadinessScore) @ ''/100 ('' @
                      toString (int (length (data v))) @ '' days)\<newline>'')
                else readiness_emoji @ '' **Readiness**: Data available but no scores calculated\<newline>'')
          else readiness_emoji @ '' **Readiness**: No data available\<newline>''
      | Rejected e \<Rightarrow> readiness_emoji @ '' **Readiness**: No data available\<newline>'')"

text \<open>
  The note on failed requests: the four outcomes have different types, so the list that
  the source filters is the list of their statuses.
\<close>

definition failedRequests ::
  "'a PromiseSettledResult \<Rightarrow> 'b PromiseSettledResult \<Rightarrow> 'c PromiseSettledResult \<Rightarrow>
   'd PromiseSettledResult \<Rightarrow> string list" where
  "failedRequests sleepResponse activityResponse stressResponse readinessResponse =
     filter (\<lambda>r. r = ''rejected'')
       [settled_status sleepResponse, settled_status activityResponse,
        settled_status stressResponse, settled_status readinessResponse]"

definition failed_requests_note :: string where
  "failed_requests_note =
     bullet @ '' Some data types may not be available for your account or ring model\<newline>''"

definition checkFailedRequests ::
  "'a PromiseSettledResult \<Rightarrow> 'b PromiseSettledResult \<Rightarrow> 'c PromiseSettledResult \<Rightarrow>
   'd PromiseSettledResult \<Rightarrow> string" where
  "checkFailedRequests sleepResponse activityResponse stressResponse readinessResponse =
     (if length (failedRequests sleepResponse activityResponse stressResponse readinessResponse) > 0
      then failed_requests_note else [])"

definition totalDataPoints ::
  "'a MultiDocumentResponse PromiseSettledResult \<Rightarrow> 'b MultiDocumentResponse PromiseSettledResult \<Rightarrow>
   'd MultiDocumentResponse PromiseSettledResult \<Rightarrow> nat" where
  "totalDataPoints sleepResponse activityResponse readinessResponse =
     foldl (\<lambda>sum count. sum + count) 0
       [case sleepResponse of Fulfilled v \<Rightarrow> length (data v) | Rejected e \<Rightarrow> 0,
        case activityResponse of Fulfilled v \<Rightarrow> length (data v) | Rejected e \<Rightarrow> 0,
        case readinessResponse of Fulfilled v \<Rightarrow> length (data v) | Rejected e \<Rightarrow> 0]"

definition no_data_found :: string where
  "no_data_found =
     bullet @ '' No data found - make sure to sync your Oura ring with the mobile app\<newline>''"

definition limited_data :: string where
  "limited_data =
     bullet @ '' Limited data available - consider syncing your ring more regularly\<newline>''"

definition good_coverage :: string where
  "good_coverage =
     bullet @ '' Good data coverage - keep up the consistent tracking!\<newline>''"

definition checkDataAvailability ::
  "'a MultiDocumentResponse PromiseSettledResult \<Rightarrow> 'b MultiDocumentResponse PromiseSettledResult \<Rightarrow>
   'd MultiDocumentResponse PromiseSettledResult \<Rightarrow> string" where
  "checkDataAvailability sleepResponse activityResponse readinessResponse =
     (if totalDataPoints sleepResponse activityResponse readinessResponse = 0 then no_data_found
      else if totalDataPoints sleepResponse activityResponse readinessResponse < 3 then limited_data
      else good_coverage)"

text \<open>The report built between the join of the four requests and the \<^verbatim>\<open>return\<close>.\<close>

definition healthSummary ::
  "DateRange \<Rightarrow>
   DailySleepModel MultiDocumentResponse PromiseSettledResult \<Rightarrow>
   DailyActivityModel MultiDocumentResponse PromiseSettledResult \<Rightarrow>
   DailyStressModel MultiDocumentResponse PromiseSettledResult \<Rightarrow>
   DailyReadinessModel MultiDocumentResponse PromiseSettledResult \<Rightarrow> string" where
  "healthSummary dateRange sleepResponse activityResponse stressResponse readinessResponse =
     chart_emoji @ '' **Comprehensive Health Summary**\<newline>\<newline>'' @
     calendar_emoji @ '' **Period**: '' @ DateRange.start_date dateRange @ '' to '' @
       DateRange.end_date dateRange @ ''\<newline>\<newline>'' @
     processSleepData sleepResponse @
     processActivityData activityResponse @
     processStressData stressResponse @
     processReadinessData readinessResponse @
     ''\<newline>'' @ bulb_emoji @ '' **Key Insights**:\<newline>'' @
     checkFailedRequests sleepResponse activityResponse stressResponse readinessResponse @
     checkDataAvailability sleepResponse activityResponse readinessResponse"

text \<open>
  The function itself. \<^verbatim>\<open>getDateRange\<close> is imported from utils.ts and is a parameter
  here; so are the configured token and the network, one \<^verbatim>\<open>fetch\<close> per response
  type. The body of the \<^verbatim>\<open>try\<close> is a result, and the \<^verbatim>\<open>catch\<close> clause maps a thrown
  error to the string that is returned instead.
\<close>

definition healthSummaryTry ::
  "(string \<Rightarrow> DateRange) \<Rightarrow> string option \<Rightarrow>
   DailySleepModel MultiDocumentResponse fetch \<Rightarrow>
   DailyActivityModel MultiDocumentResponse fetch \<Rightarrow>
   DailyStressModel MultiDocumentResponse fetch \<Rightarrow>
   DailyReadinessModel MultiDocumentResponse fetch \<Rightarrow>
   string \<Rightarrow> string option \<Rightarrow> string option \<Rightarrow> js_error + string" where
  "healthSummaryTry getDateRange API_TOKEN fetchSleep fetchActivity fetchStress fetchReadiness
       period start_date_arg end_date_arg =
     (let dateRange =
            (if truthy start_date_arg \<and> truthy end_date_arg
             then \<lparr>start_date = the start_date_arg, end_date = the end_date_arg\<rparr>
             else getDateRange period);
          params = [(''start_date'', DateRange.start_date dateRange),
                    (''end_date'', DateRange.end_date dateRange)];
          sleepResponse =
            settled (makeOuraRequest API_TOKEN fetchSleep ''/usercollection/daily_sleep'' params);
          activityResponse =
            settled (makeOuraRequest API_TOKEN fetchActivity ''/usercollection/daily_activity'' params);
          stressResponse =
            settled (makeOuraRequest API_TOKEN fetchStress ''/usercollection/daily_stress'' params);
          readinessResponse =
            settled (makeOuraRequest API_TOKEN fetchReadiness ''/usercollection/daily_readiness'' params)
      in Inr (healthSummary dateRange sleepResponse activityResponse stressResponse readinessResponse))"

definition executeGetOuraHealthSummary ::
  "(string \<Rightarrow> DateRange) \<Rightarrow> string option \<Rightarrow>
   DailySleepModel MultiDocumentResponse fetch \<Rightarrow>
   DailyActivityModel MultiDocumentResponse fetch \<Rightarrow>
   DailyStressModel MultiDocumentResponse fetch \<Rightarrow>
   DailyReadinessModel MultiDocumentResponse fetch \<Rightarrow>
   string \<Rightarrow> string option \<Rightarrow> string option \<Rightarrow> string" where
  "executeGetOuraHealthSummary getDateRange API_TOKEN fetchSleep fetchActivity fetchStress
       fetchReadiness period start_date_arg end_date_arg =
     (case healthSummaryTry getDateRange API_TOKEN fetchSleep fetchActivity fetchStress
             fetchReadiness period start_date_arg end_date_arg of
        Inr response \<Rightarrow> response
      | Inl (OuraAPIUserError message userMessage) \<Rightarrow> userMessage
      | Inl (OtherError message) \<Rightarrow>
          cross_mark @ '' **Error**: Unable to fetch health summary. Please try again later.'')"

section \<open>The single-metric functions (oura.ts)\<close>





section \<open>The period resolver (utils.ts)\<close>

text \<open>
  Modelled from the spec: the calendar dates, the day arithmetic and the formatting
  that \<^verbatim>\<open>getDateRange\<close> of utils.ts needs; utils.ts is missing from the sources.
  Section 4.1 of the specification is followed. The current date, which the program
  reads from the clock, is an argument. A calendar date is a year, a month and a day of
  the proleptic Gregorian calendar; a date is formatted with four, two and two digits.
\<close>

record CalendarDate =
  cal_year :: int
  cal_month :: nat
  cal_day :: nat

definition leap_year :: "int \<Rightarrow> bool" where
  "leap_year y = ((y mod 4 = 0 \<and> y mod 100 \<noteq> 0) \<or> y mod 400 = 0)"

definition days_in_month :: "int \<Rightarrow> nat \<Rightarrow> nat" where
  "days_in_month y m =
     (if m = 2 then (if leap_year y then 29 else 28)
      else if m = 4 \<or> m = 6 \<or> m = 9 \<or> m = 11 then 30
      else 31)"

definition valid_date :: "CalendarDate \<Rightarrow> bool" where
  "valid_date d =
     (1 \<le> cal_month d \<and> cal_month d \<le> 12 \<and> 1 \<le> cal_day d \<and>
      cal_day d \<le> days_in_month (cal_year d) (cal_month d))"

definition previous_day :: "CalendarDate \<Rightarrow> CalendarDate" where
  "previous_day d =
     (if 1 < cal_day d then d\<lparr>cal_day := cal_day d - 1\<rparr>
      else if 1 < cal_month d then
        \<lparr>cal_year = cal_year d, cal_month = cal_month d - 1,
         cal_day = days_in_month (cal_year d) (cal_month d - 1)\<rparr>
      else \<lparr>cal_year = cal_year d - 1, cal_month = 12, cal_day = 31\<rparr>)"

definition next_day :: "CalendarDate \<Rightarrow> CalendarDate" where
  "next_day d =
     (if cal_day d < days_in_month (cal_year d) (cal_month d) then d\<lparr>cal_day := cal_day d + 1\<rparr>
      else if cal_month d < 12 then
        \<lparr>cal_year = cal_year d, cal_month = cal_month d + 1, cal_day = 1\<rparr>
      else \<lparr>cal_year = cal_year d + 1, cal_month = 1, cal_day = 1\<rparr>)"

fun minus_days :: "nat \<Rightarrow> CalendarDate \<Rightarrow> CalendarDate" where
  "minus_days 0 d = d"
| "minus_days (Suc n) d = minus_days n (previous_day d)"

fun days_from :: "nat \<Rightarrow> CalendarDate \<Rightarrow> CalendarDate list" where
  "days_from 0 d = []"
| "days_from (Suc n) d = d # days_from n (next_day d)"

definition date_le :: "CalendarDate \<Rightarrow> CalendarDate \<Rightarrow> bool" where
  "date_le a b =
     (cal_year a < cal_year b \<or>
      (cal_year a = cal_year b \<and>
       (cal_month a < cal_month b \<or> (cal_month a = cal_month b \<and> cal_day a \<le> cal_day b))))"

definition formatDate :: "CalendarDate \<Rightarrow> string" where
  "formatDate d =
     (let y = nat (cal_year d) in
      [''0123456789'' ! (y div 1000 mod 10), ''0123456789'' ! (y div 100 mod 10),
       ''0123456789'' ! (y div 10 mod 10), ''0123456789'' ! (y mod 10)] @ ''-'' @
      [''0123456789'' ! (cal_month d div 10 mod 10), ''0123456789'' ! (cal_month d mod 10)] @ ''-'' @
      [''0123456789'' ! (cal_day d div 10 mod 10), ''0123456789'' ! (cal_day d mod 10)])"

definition is_digit :: "char \<Rightarrow> bool" where
  "is_digit c = (c \<in> set ''0123456789'')"

fun conforms_YYYY_MM_DD :: "string \<Rightarrow> bool" where
  "conforms_YYYY_MM_DD [y1, y2, y3, y4, s1, m1, m2, s2, d1, d2] =
     (is_digit y1 \<and> is_digit y2 \<and> is_digit y3 \<and> is_digit y4 \<and> s1 = CHR ''-'' \<and>
      is_digit m1 \<and> is_digit m2 \<and> s2 = CHR ''-'' \<and> is_digit d1 \<and> is_digit d2)"
| "conforms_YYYY_MM_DD s = False"

text \<open>
  Modelled from the spec: the date that a string of the form YYYY-MM-DD denotes, the
  inverse of the formatting of utils.ts, which is missing from the sources.
\<close>

definition digit_value :: "char \<Rightarrow> nat" where
  "digit_value c = of_char c - 48"

fun parseDate :: "string \<Rightarrow> CalendarDate option" where
  "parseDate [y1, y2, y3, y4, s1, m1, m2, s2, d1, d2] =
     (if conforms_YYYY_MM_DD [y1, y2, y3, y4, s1, m1, m2, s2, d1, d2] then
        Some \<lparr>cal_year = int (1000 * digit_value y1 + 100 * digit_value y2 +
                              10 * digit_value y3 + digit_value y4),
              cal_month = 10 * digit_value m1 + digit_value m2,
              cal_day = 10 * digit_value d1 + digit_value d2\<rparr>
      else None)"
| "parseDate s = None"

text \<open>
  Modelled from the spec: \<^verbatim>\<open>getDateRange\<close> of utils.ts, which is missing from the
  sources. The range of a period token is a pair of calendar dates, start first.
\<close>

definition periodDates :: "CalendarDate \<Rightarrow> string \<Rightarrow> CalendarDate \<times> CalendarDate" where
  "periodDates today period =
     (if period = ''today'' then (today, today)
      else if period = ''yesterday'' then (minus_days 1 today, minus_days 1 today)
      else if period = ''week'' then (minus_days 6 today, today)
      else if period = ''month'' then (minus_days 29 today, today)
      else (minus_days 6 today, today))"

text \<open>
  Modelled from the spec: \<^verbatim>\<open>getDateRange\<close> of utils.ts, which is missing from the
  sources. Both dates of the range are formatted.
\<close>

definition getDateRange :: "CalendarDate \<Rightarrow> string \<Rightarrow> DateRange" where
  "getDateRange today period =
     \<lparr>start_date = formatDate (fst (periodDates today period)),
      end_date = formatDate (snd (periodDates today period))\<rparr>"

section \<open>Reference notions of the specification\<close>

text \<open>
  The specification speaks of the values that are present in a list of optional values,
  of the arithmetic mean, and of the number of records of an outcome. These definitions
  follow its words; the theorems below compare them with the code.
\<close>

fun present :: "'a opt list \<Rightarrow> 'a list" where
  "present [] = []"
| "present (Val x # xs) = x # present xs"
| "present (Null # xs) = present xs"
| "present (Undefined # xs) = present xs"

definition mean :: "nat list \<Rightarrow> rat" where
  "mean xs = rat_of_nat (sum_list xs) / rat_of_nat (length xs)"

fun record_count :: "'a MultiDocumentResponse PromiseSettledResult \<Rightarrow> nat" where
  "record_count (Fulfilled v) = length (data v)"
| "record_count (Rejected e) = 0"

fun is_rejected :: "'a PromiseSettledResult \<Rightarrow> bool" where
  "is_rejected (Fulfilled v) = False"
| "is_rejected (Rejected e) = True"

text \<open>
  The most frequent label as the specification words it: sort the labels by ascending
  number of occurrences with a stable sort and take the last one.
\<close>

definition most_frequent_label :: "'a list \<Rightarrow> 'a" where
  "most_frequent_label labels = last (sort_key (\<lambda>l. count_list labels l) labels)"

text \<open>
  The report of the worst case, in which every category has no data: the four
  "No data available" lines, the note on unavailable data types and the "No data found"
  insight.
\<close>

definition all_failed_report :: "DateRange \<Rightarrow> string" where
  "all_failed_report dateRange =
     chart_emoji @ '' **Comprehensive Health Summary**\<newline>\<newline>'' @
     calendar_emoji @ '' **Period**: '' @ DateRange.start_date dateRange @ '' to '' @
       DateRange.end_date dateRange @ ''\<newline>\<newline>'' @
     sleep_emoji @ '' **Sleep**: No data available\<newline>'' @
     activity_emoji @ '' **Activity**: No data available\<newline>'' @
     stress_emoji @ '' **Stress**: No data available\<newline>'' @
     readiness_emoji @ '' **Readiness**: No data available\<newline>'' @
     ''\<newline>'' @ bulb_emoji @ '' **Key Insights**:\<newline>'' @
     bullet @ '' Some data types may not be available for your account or ring model\<newline>'' @
     bullet @ '' No data found - make sure to sync your Oura ring with the mobile app\<newline>''"

section \<open>Auxiliary facts\<close>

declare digits.simps [simp del] grouped.simps [simp del]

lemma foldl_plus_sum_list:
  fixes f :: "'a \<Rightarrow> nat"
  shows "foldl (\<lambda>sum d. sum + f d) a xs = a + sum_list (map f xs)"
  by (induction xs arbitrary: a) simp_all

lemma or_zero_valid_present:
  fixes f :: "'a \<Rightarrow> nat opt"
  shows "map (\<lambda>d. or_zero (f d)) (filter (\<lambda>d. f d \<noteq> Null \<and> f d \<noteq> Undefined) xs) =
         present (map f xs)"
proof (induction xs)
  case Nil
  show ?case by simp
next
  case (Cons x xs)
  then show ?case by (cases "f x") simp_all
qed

lemma valid_length:
  fixes f :: "'a \<Rightarrow> 'b opt"
  shows "length (filter (\<lambda>d. f d \<noteq> Null \<and> f d \<noteq> Undefined) xs) = length (present (map f xs))"
proof (induction xs)
  case Nil
  show ?case by simp
next
  case (Cons x xs)
  then show ?case by (cases "f x") simp_all
qed

lemma valid_sum:
  fixes f :: "'a \<Rightarrow> nat opt"
  shows "foldl (\<lambda>sum d. sum + or_zero (f d)) 0
           (filter (\<lambda>d. f d \<noteq> Null \<and> f d \<noteq> Undefined) xs) =
         sum_list (present (map f xs))"
  using foldl_plus_sum_list
          [of "\<lambda>d. or_zero (f d)" 0 "filter (\<lambda>d. f d \<noteq> Null \<and> f d \<noteq> Undefined) xs"]
  by (simp only: or_zero_valid_present add_0_left)

lemma valid_mean:
  fixes f :: "'a \<Rightarrow> nat opt"
  shows "rat_of_nat (foldl (\<lambda>sum d. sum + or_zero (f d)) 0
            (filter (\<lambda>d. f d \<noteq> Null \<and> f d \<noteq> Undefined) xs)) /
         rat_of_nat (length (filter (\<lambda>d. f d \<noteq> Null \<and> f d \<noteq> Undefined) xs)) =
         mean (present (map f xs))"
  by (simp only: valid_sum valid_length mean_def)

lemma Math_round_nearest: "Math_round x = round x"
  by (simp add: Math_round_def round_def)

text \<open>Two equations that evaluate a rounded mean by integer division.\<close>

lemma round_mean_div:
  "xs \<noteq> [] \<Longrightarrow>
   round (mean xs) = (2 * int (sum_list xs) + int (length xs)) div (2 * int (length xs))"
proof -
  assume "xs \<noteq> []"
  then have n: "rat_of_nat (length xs) \<noteq> 0" by simp
  have "mean xs + 1 / 2 =
      rat_of_int (2 * int (sum_list xs) + int (length xs)) / rat_of_int (2 * int (length xs))"
    using n by (simp add: mean_def field_simps)
  then show ?thesis
    unfolding round_def by (simp only: floor_divide_of_int_eq)
qed

lemma round_mean_minutes:
  "xs \<noteq> [] \<Longrightarrow>
   round (mean xs / 60) =
     (2 * int (sum_list xs) + 60 * int (length xs)) div (120 * int (length xs))"
proof -
  assume "xs \<noteq> []"
  then have n: "rat_of_nat (length xs) \<noteq> 0" by simp
  have "mean xs / 60 + 1 / 2 =
      rat_of_int (2 * int (sum_list xs) + 60 * int (length xs)) /
      rat_of_int (120 * int (length xs))"
    using n by (simp add: mean_def field_simps)
  then show ?thesis
    unfolding round_def by (simp only: floor_divide_of_int_eq)
qed

section \<open>The score lines of sleep and readiness\<close>

lemma processSleepData_cases:
  "processSleepData sleepResponse =
     (case sleepResponse of
        Rejected e \<Rightarrow> sleep_emoji @ '' **Sleep**: No data available\<newline>''
      | Fulfilled v \<Rightarrow>
          if data v = [] then sleep_emoji @ '' **Sleep**: No data available\<newline>''
          else if present (map DailySleepModel.score (data v)) = [] then
            sleep_emoji @ '' **Sleep**: Data available but no scores calculated\<newline>''
          else
            sleep_emoji @ '' **Sleep**: Average score '' @
            toString (round (mean (present (map DailySleepModel.score (data v))))) @
            ''/100 ('' @ toString (int (length (data v))) @ '' days)\<newline>'')"
proof (cases sleepResponse)
  case (Rejected e)
  then show ?thesis by (simp add: processSleepData_def)
next
  case (Fulfilled v)
  show ?thesis
  proof (cases "data v = []")
    case True
    then show ?thesis by (simp add: processSleepData_def Fulfilled)
  next
    case False
    show ?thesis
    proof (cases "present (map DailySleepModel.score (data v)) = []")
      case True
      with False show ?thesis
        unfolding processSleepData_def Fulfilled Let_def valid_mean
        by (simp add: valid_length)
    next
      case scored: False
      with False show ?thesis
        unfolding processSleepData_def Fulfilled Let_def valid_mean Math_round_nearest
        by (simp add: valid_length)
    qed
  qed
qed

lemma processReadinessData_cases:
  "processReadinessData readinessResponse =
     (case readinessResponse of
        Rejected e \<Rightarrow> readiness_emoji @ '' **Readiness**: No data available\<newline>''
      | Fulfilled v \<Rightarrow>
          if data v = [] then readiness_emoji @ '' **Readiness**: No data available\<newline>''
          else if present (map DailyReadinessModel.score (data v)) = [] then
            readiness_emoji @ '' **Readiness**: Data available but no scores calculated\<newline>''
          else
            readiness_emoji @ '' **Readiness**: Average score '' @
            toString (round (mean (present (map DailyReadinessModel.score (data v))))) @
            ''/100 ('' @ toString (int (length (data v))) @ '' days)\<newline>'')"
proof (cases readinessResponse)
  case (Rejected e)
  then show ?thesis by (simp add: processReadinessData_def)
next
  case (Fulfilled v)
  show ?thesis
  proof (cases "data v = []")
    case True
    then show ?thesis by (simp add: processReadinessData_def Fulfilled)
  next
    case False
    show ?thesis
    proof (cases "present (map DailyReadinessModel.score (data v)) = []")
      case True
      with False show ?thesis
        unfolding processReadinessData_def Fulfilled Let_def valid_mean
        by (simp add: valid_length)
    next
      case scored: False
      with False show ?thesis
        unfolding processReadinessData_def Fulfilled Let_def valid_mean Math_round_nearest
        by (simp add: valid_length)
    qed
  qed
qed

text \<open>
  Claim C2. The sleep line of the report is "No data available" when the request failed
  or returned no record, "Data available but no scores calculated" when there are records
  but none has a score, and otherwise states the arithmetic mean of the scores that are
  present, rounded to the nearest integer, together with the number of all fetched
  records. The readiness line follows the same rule.
\<close>

theorem sleep_and_readiness_lines:
  "processSleepData sleepResponse =
     (case sleepResponse of
        Rejected e \<Rightarrow> sleep_emoji @ '' **Sleep**: No data available\<newline>''
      | Fulfilled v \<Rightarrow>
          if data v = [] then sleep_emoji @ '' **Sleep**: No data available\<newline>''
          else if present (map DailySleepModel.score (data v)) = [] then
            sleep_emoji @ '' **Sleep**: Data available but no scores calculated\<newline>''
          else
            sleep_emoji @ '' **Sleep**: Average score '' @
            toString (round (mean (present (map DailySleepModel.score (data v))))) @
            ''/100 ('' @ toString (int (length (data v))) @ '' days)\<newline>'') \<and>
   processReadinessData readinessResponse =
     (case readinessResponse of
        Rejected e \<Rightarrow> readiness_emoji @ '' **Readiness**: No data available\<newline>''
      | Fulfilled v \<Rightarrow>
          if data v = [] then readiness_emoji @ '' **Readiness**: No data available\<newline>''
          else if present (map DailyReadinessModel.score (data v)) = [] then
            readiness_emoji @ '' **Readiness**: Data available but no scores calculated\<newline>''
          else
            readiness_emoji @ '' **Readiness**: Average score '' @
            toString (round (mean (present (map DailyReadinessModel.score (data v))))) @
            ''/100 ('' @ toString (int (length (data v))) @ '' days)\<newline>'')"
  using processSleepData_cases [of sleepResponse]
    processReadinessData_cases [of readinessResponse]
  by (rule conjI)

text \<open>
  The example of the specification: scores 80, 90 and \<^verbatim>\<open>null\<close> give the average 85 over
  3 days; readiness records without any score give the second variant.
\<close>

theorem sleep_and_readiness_lines_witness:
  "processSleepData (Fulfilled \<lparr>data =
       [\<lparr>DailySleepModel.day = ''2024-03-01'', DailySleepModel.score = Val 80\<rparr>,
        \<lparr>DailySleepModel.day = ''2024-03-02'', DailySleepModel.score = Val 90\<rparr>,
        \<lparr>DailySleepModel.day = ''2024-03-03'', DailySleepModel.score = Null\<rparr>],
       next_token = Null\<rparr>) =
     sleep_emoji @ '' **Sleep**: Average score 85/100 (3 days)\<newline>'' \<and>
   processReadinessData (Fulfilled \<lparr>data =
       [\<lparr>DailyReadinessModel.day = ''2024-03-01'', DailyReadinessModel.score = Null\<rparr>,
        \<lparr>DailyReadinessModel.day = ''2024-03-02'', DailyReadinessModel.score = Undefined\<rparr>],
       next_token = Null\<rparr>) =
     readiness_emoji @ '' **Readiness**: Data available but no scores calculated\<newline>''"
  using sleep_and_readiness_lines
    [of "Fulfilled \<lparr>data =
       [\<lparr>DailySleepModel.day = ''2024-03-01'', DailySleepModel.score = Val 80\<rparr>,
        \<lparr>DailySleepModel.day = ''2024-03-02'', DailySleepModel.score = Val 90\<rparr>,
        \<lparr>DailySleepModel.day = ''2024-03-03'', DailySleepModel.score = Null\<rparr>],
       next_token = Null\<rparr>"
       "Fulfilled \<lparr>data =
       [\<lparr>DailyReadinessModel.day = ''2024-03-01'', DailyReadinessModel.score = Null\<rparr>,
        \<lparr>DailyReadinessModel.day = ''2024-03-02'', DailyReadinessModel.score = Undefined\<rparr>],
       next_token = Null\<rparr>"]
  by (simp add: round_mean_div toString_def digits.simps)

section \<open>The activity line\<close>

text \<open>
  Claim C5. For a non-empty list of activity records the line states the average daily
  step count, the sum of the steps of all records divided by the number of all records
  and rounded to the nearest integer, whether or not any record has a score. Without any
  score the line is the "(no scores available)" variant; "No data available" is
  reserved for a failed request or an empty list.
\<close>

theorem activity_line_average_steps:
  "processActivityData activityResponse =
     (case activityResponse of
        Rejected e \<Rightarrow> activity_emoji @ '' **Activity**: No data available\<newline>''
      | Fulfilled v \<Rightarrow>
          if data v = [] then activity_emoji @ '' **Activity**: No data available\<newline>''
          else if present (map DailyActivityModel.score (data v)) = [] then
            activity_emoji @ '' **Activity**: '' @
            toLocaleString (round (mean (map steps (data v)))) @
            '' avg steps/day (no scores available)\<newline>''
          else
            activity_emoji @ '' **Activity**: Average score '' @
            toString (round (mean (present (map DailyActivityModel.score (data v))))) @
            ''/100, '' @ toLocaleString (round (mean (map steps (data v)))) @
            '' avg steps/day\<newline>'')"
proof (cases activityResponse)
  case (Rejected e)
  then show ?thesis by (simp add: processActivityData_def)
next
  case (Fulfilled v)
  have avg_steps:
    "rat_of_nat (foldl (\<lambda>sum d. sum + steps d) 0 (data v)) / rat_of_nat (length (data v)) =
     mean (map steps (data v))"
    by (simp add: foldl_plus_sum_list mean_def)
  show ?thesis
  proof (cases "data v = []")
    case True
    then show ?thesis by (simp add: processActivityData_def Fulfilled)
  next
    case False
    show ?thesis
    proof (cases "present (map DailyActivityModel.score (data v)) = []")
      case True
      with False show ?thesis
        unfolding processActivityData_def Fulfilled Let_def valid_mean Math_round_nearest
        by (simp add: valid_length avg_steps)
    next
      case scored: False
      with False show ?thesis
        unfolding processActivityData_def Fulfilled Let_def valid_mean Math_round_nearest
        by (simp add: valid_length avg_steps)
    qed
  qed
qed

text \<open>The example of the specification: 1000 and 3000 steps without scores.\<close>

theorem activity_line_average_steps_witness:
  "processActivityData (Fulfilled \<lparr>data =
       [\<lparr>DailyActivityModel.day = ''2024-03-01'', DailyActivityModel.score = Undefined,
         steps = 1000\<rparr>,
        \<lparr>DailyActivityModel.day = ''2024-03-02'', DailyActivityModel.score = Null,
         steps = 3000\<rparr>], next_token = Null\<rparr>) =
     activity_emoji @ '' **Activity**: 2,000 avg steps/day (no scores available)\<newline>''"
  using activity_line_average_steps
    [of "Fulfilled \<lparr>data =
       [\<lparr>DailyActivityModel.day = ''2024-03-01'', DailyActivityModel.score = Undefined,
         steps = 1000\<rparr>,
        \<lparr>DailyActivityModel.day = ''2024-03-02'', DailyActivityModel.score = Null,
         steps = 3000\<rparr>], next_token = Null\<rparr>"]
  by (simp add: round_mean_div toLocaleString_def grouped.simps digits.simps group_of_three_def)

section \<open>The stress line\<close>

lemma processStressData_cases:
  "processStressData stressResponse =
     (case stressResponse of
        Rejected e \<Rightarrow> stress_emoji @ '' **Stress**: No data available\<newline>''
      | Fulfilled v \<Rightarrow>
          if data v = [] then stress_emoji @ '' **Stress**: No data available\<newline>''
          else if present (map stress_high (data v)) = [] then
            stress_emoji @ '' **Stress**: Data available but no stress times calculated\<newline>''
          else
            stress_emoji @ '' **Stress**: '' @
            toString (round (mean (present (map stress_high (data v))) / 60)) @
            '' avg minutes/day, mostly '' @ or_NA (mostCommonSummary (data v)) @ ''\<newline>'')"
proof (cases stressResponse)
  case (Rejected e)
  then show ?thesis by (simp add: processStressData_def)
next
  case (Fulfilled v)
  show ?thesis
  proof (cases "data v = []")
    case True
    then show ?thesis by (simp add: processStressData_def Fulfilled)
  next
    case False
    show ?thesis
    proof (cases "present (map stress_high (data v)) = []")
      case True
      with False show ?thesis
        unfolding processStressData_def Fulfilled Let_def valid_mean
        by (simp add: valid_length)
    next
      case timed: False
      with False show ?thesis
        unfolding processStressData_def Fulfilled Let_def valid_mean Math_round_nearest
        by (simp add: valid_length)
    qed
  qed
qed

text \<open>
  Claim C6. For a non-empty list of stress records the records that have a duration of
  high stress are kept; if there are any, the line states the arithmetic mean of their
  durations in seconds, divided by 60 and rounded to the nearest integer, as minutes. If
  no record has a duration the line is "Data available but no stress times calculated";
  after a failed request or for an empty list it is "No data available".
\<close>

theorem stress_line_average_minutes:
  "processStressData stressResponse =
     (case stressResponse of
        Rejected e \<Rightarrow> stress_emoji @ '' **Stress**: No data available\<newline>''
      | Fulfilled v \<Rightarrow>
          if data v = [] then stress_emoji @ '' **Stress**: No data available\<newline>''
          else if present (map stress_high (data v)) = [] then
            stress_emoji @ '' **Stress**: Data available but no stress times calculated\<newline>''
          else
            stress_emoji @ '' **Stress**: '' @
            toString (round (mean (present (map stress_high (data v))) / 60)) @
            '' avg minutes/day, mostly '' @ or_NA (mostCommonSummary (data v)) @ ''\<newline>'')"
  by (rule processStressData_cases)

text \<open>
  Durations of 1800 and 5500 seconds and one record without a duration: the mean of
  3650 seconds is 60.83 minutes, reported as 61.
\<close>

theorem stress_line_average_minutes_witness:
  "processStressData (Fulfilled \<lparr>data =
      [\<lparr>DailyStressModel.day = ''2024-03-01'', stress_high = Val 1800, recovery_high = Null,
         day_summary = Val normal\<rparr>,
       \<lparr>DailyStressModel.day = ''2024-03-02'', stress_high = Val 5500, recovery_high = Null,
         day_summary = Val stressful\<rparr>,
       \<lparr>DailyStressModel.day = ''2024-03-03'', stress_high = Null, recovery_high = Null,
         day_summary = Val normal\<rparr>],
      next_token = Null\<rparr>) =
   stress_emoji @ '' **Stress**: 61 avg minutes/day, mostly normal\<newline>''"
proof -
  have label: "mostCommonSummary
      [\<lparr>DailyStressModel.day = ''2024-03-01'', stress_high = Val 1800, recovery_high = Null,
         day_summary = Val normal\<rparr>,
       \<lparr>DailyStressModel.day = ''2024-03-02'', stress_high = Val 5500, recovery_high = Null,
         day_summary = Val stressful\<rparr>,
       \<lparr>DailyStressModel.day = ''2024-03-03'', stress_high = Null, recovery_high = Null,
         day_summary = Val normal\<rparr>] = Val normal"
    by (simp add: mostCommonSummary_def Array_sort_def Array_pop_def stable_sort_def)
  show ?thesis
    using stress_line_average_minutes [of "Fulfilled \<lparr>data =
      [\<lparr>DailyStressModel.day = ''2024-03-01'', stress_high = Val 1800, recovery_high = Null,
         day_summary = Val normal\<rparr>,
       \<lparr>DailyStressModel.day = ''2024-03-02'', stress_high = Val 5500, recovery_high = Null,
         day_summary = Val stressful\<rparr>,
       \<lparr>DailyStressModel.day = ''2024-03-03'', stress_high = Null, recovery_high = Null,
         day_summary = Val normal\<rparr>],
      next_token = Null\<rparr>"]
    by (simp add: round_mean_minutes label toString_def digits.simps)
qed

section \<open>The most frequent day classification\<close>

lemma insert_stable_insort_key:
  fixes f :: "'a \<Rightarrow> nat"
  shows "insert_stable (\<lambda>a b. int (f a) - int (f b)) x ys = insort_key f x ys"
  by (induction ys) simp_all

lemma stable_sort_sort_key:
  fixes f :: "'a \<Rightarrow> nat"
  shows "stable_sort (\<lambda>a b. int (f a) - int (f b)) xs = sort_key f xs"
  unfolding stable_sort_def sort_key_def
  by (induction xs) (simp_all add: insert_stable_insort_key)

lemma insort_key_map:
  "insort_key f (g x) (map g ys) = map g (insort_key (\<lambda>y. f (g y)) x ys)"
  by (induction ys) simp_all

lemma sort_key_map:
  "sort_key f (map g xs) = map g (sort_key (\<lambda>y. f (g y)) xs)"
  by (induction xs) (simp_all add: insort_key_map)

lemma filter_not_Null:
  "Undefined \<notin> set xs \<Longrightarrow> filter (\<lambda>s. s \<noteq> Null) xs = map Val (present xs)"
proof (induction xs)
  case Nil
  show ?case by simp
next
  case (Cons x xs)
  then show ?case by (cases x) simp_all
qed

lemma count_Val: "length (filter (\<lambda>v. v = Val l) (map Val ls)) = count_list ls l"
  by (induction ls) auto

lemma last_filter_keeps:
  "xs \<noteq> [] \<Longrightarrow> P (last xs) \<Longrightarrow> last (filter P xs) = last xs"
  by (induction xs) (auto simp: filter_empty_conv)

lemma sorted_last_greatest:
  fixes f :: "'a \<Rightarrow> nat"
  shows "sorted (map f ys) \<Longrightarrow> y \<in> set ys \<Longrightarrow> f y \<le> f (last ys)"
  by (induction ys) auto

lemma last_sort_key:
  fixes f :: "'a \<Rightarrow> nat"
  assumes "xs \<noteq> []"
  shows "last (sort_key f xs) = last (filter (\<lambda>y. f y = Max (f ` set xs)) xs)"
proof -
  let ?ys = "sort_key f xs"
  have ne: "?ys \<noteq> []"
    using assms by (metis set_sort set_empty)
  have in_set: "last ?ys \<in> set xs"
    using last_in_set [OF ne] by simp
  have greatest: "f y \<le> f (last ?ys)" if "y \<in> set xs" for y
  proof -
    from that have "y \<in> set ?ys" by simp
    moreover have "sorted (map f ?ys)" by (rule sorted_sort_key)
    ultimately show ?thesis by (rule sorted_last_greatest [rotated])
  qed
  have m: "Max (f ` set xs) = f (last ?ys)"
  proof (rule Max_eqI)
    show "finite (f ` set xs)" by simp
    show "f (last ?ys) \<in> f ` set xs" using in_set by (rule imageI)
    fix k
    assume "k \<in> f ` set xs"
    then obtain y where "y \<in> set xs" and "k = f y" by blast
    then show "k \<le> f (last ?ys)" using greatest by simp
  qed
  have "last ?ys = last (filter (\<lambda>y. f y = f (last ?ys)) ?ys)"
    by (rule last_filter_keeps [symmetric]) (simp_all add: ne)
  also have "filter (\<lambda>y. f y = f (last ?ys)) ?ys = filter (\<lambda>y. f y = f (last ?ys)) xs"
    by (rule sort_key_stable)
  finally have "last ?ys = last (filter (\<lambda>y. f y = f (last ?ys)) xs)" .
  then show ?thesis
    unfolding m .
qed

lemma most_frequent_label_last_maximal:
  "labels \<noteq> [] \<Longrightarrow>
   most_frequent_label labels =
     last (filter (\<lambda>l. count_list labels l = Max (count_list labels ` set labels)) labels)"
  unfolding most_frequent_label_def by (rule last_sort_key)

lemma mostCommonSummary_without_undefined:
  assumes "Undefined \<notin> set (map day_summary stressData)"
    and "present (map day_summary stressData) \<noteq> []"
  shows "mostCommonSummary stressData =
         Val (most_frequent_label (present (map day_summary stressData)))"
proof -
  let ?ls = "present (map day_summary stressData)"
  have s: "filter (\<lambda>s. s \<noteq> Null) (map day_summary stressData) = map Val ?ls"
    using assms(1) by (rule filter_not_Null)
  have defined: "filter (\<lambda>x. x \<noteq> Undefined) (map Val ?ls) = map Val ?ls"
    by (induction ?ls) simp_all
  have undefined: "filter (\<lambda>x. x = Undefined) (map Val ?ls) = []"
    by (induction ?ls) simp_all
  have sorted: "Array_sort
      (\<lambda>a b. int (length (filter (\<lambda>v. v = a) (map Val ?ls))) -
             int (length (filter (\<lambda>v. v = b) (map Val ?ls)))) (map Val ?ls) =
      map Val (sort_key (count_list ?ls) ?ls)"
    unfolding Array_sort_def defined undefined
    by (simp only: stable_sort_sort_key sort_key_map count_Val append_Nil2)
  have ne: "sort_key (count_list ?ls) ?ls \<noteq> []"
    using assms(2) by (metis set_sort set_empty)
  show ?thesis
    unfolding mostCommonSummary_def Let_def s sorted most_frequent_label_def
    using assms(2) ne by (simp add: Array_pop_def last_map)
qed

lemma mostCommonSummary_all_null:
  assumes "Undefined \<notin> set (map day_summary stressData)"
    and "present (map day_summary stressData) = []"
  shows "mostCommonSummary stressData = Null"
proof -
  have "filter (\<lambda>s. s \<noteq> Null) (map day_summary stressData) =
      map Val (present (map day_summary stressData))"
    using assms(1) by (rule filter_not_Null)
  then have "filter (\<lambda>s. s \<noteq> Null) (map day_summary stressData) = []"
    by (simp only: assms(2) list.map)
  then show ?thesis
    unfolding mostCommonSummary_def Let_def by simp
qed

text \<open>
  Claim C4, as amended. Let the stress records be fetched, non-empty, with at least one
  duration of high stress, and let every record carry the day classification key (a
  label or \<^verbatim>\<open>null\<close>). If some record has a label, the line reports the last element of
  the stable ascending sort of the labels by their number of occurrences; this is a most
  frequent label, and among equally frequent ones the one that occurs last in the order
  of the records. If no record has a label, the line reports "N/A".
\<close>

theorem stress_line_most_frequent_label:
  assumes "data v \<noteq> []"
    and "present (map stress_high (data v)) \<noteq> []"
    and "Undefined \<notin> set (map day_summary (data v))"
  shows "processStressData (Fulfilled v) =
           stress_emoji @ '' **Stress**: '' @
           toString (round (mean (present (map stress_high (data v))) / 60)) @
           '' avg minutes/day, mostly '' @
           (if present (map day_summary (data v)) = [] then ''N/A''
            else summary_text (most_frequent_label (present (map day_summary (data v))))) @
           ''\<newline>'' \<and>
         (present (map day_summary (data v)) \<noteq> [] \<longrightarrow>
            most_frequent_label (present (map day_summary (data v))) =
              last (filter
                (\<lambda>l. count_list (present (map day_summary (data v))) l =
                       Max (count_list (present (map day_summary (data v))) `
                            set (present (map day_summary (data v)))))
                (present (map day_summary (data v)))))"
proof
  have line: "processStressData (Fulfilled v) =
      stress_emoji @ '' **Stress**: '' @
      toString (round (mean (present (map stress_high (data v))) / 60)) @
      '' avg minutes/day, mostly '' @ or_NA (mostCommonSummary (data v)) @ ''\<newline>''"
    using processStressData_cases [of "Fulfilled v"] assms(1,2) by simp
  have "or_NA (mostCommonSummary (data v)) =
      (if present (map day_summary (data v)) = [] then ''N/A''
       else summary_text (most_frequent_label (present (map day_summary (data v)))))"
  proof (cases "present (map day_summary (data v)) = []")
    case True
    then show ?thesis
      using mostCommonSummary_all_null [OF assms(3)] by simp
  next
    case False
    then show ?thesis
      using mostCommonSummary_without_undefined [OF assms(3)] by simp
  qed
  then show "processStressData (Fulfilled v) =
           stress_emoji @ '' **Stress**: '' @
           toString (round (mean (present (map stress_high (data v))) / 60)) @
           '' avg minutes/day, mostly '' @
           (if present (map day_summary (data v)) = [] then ''N/A''
            else summary_text (most_frequent_label (present (map day_summary (data v))))) @
           ''\<newline>''"
    using line by (simp only:)
  show "present (map day_summary (data v)) \<noteq> [] \<longrightarrow>
            most_frequent_label (present (map day_summary (data v))) =
              last (filter
                (\<lambda>l. count_list (present (map day_summary (data v))) l =
                       Max (count_list (present (map day_summary (data v))) `
                            set (present (map day_summary (data v)))))
                (present (map day_summary (data v))))"
    using most_frequent_label_last_maximal by blast
qed

text \<open>
  The examples of the specification: the labels normal, normal, stressful give
  "normal"; the tie normal, stressful gives "stressful", the label that comes last.
\<close>

theorem stress_line_most_frequent_label_witness:
  "processStressData (Fulfilled \<lparr>data =
      [\<lparr>DailyStressModel.day = ''2024-03-01'', stress_high = Val 600, recovery_high = Null,
         day_summary = Val normal\<rparr>,
       \<lparr>DailyStressModel.day = ''2024-03-02'', stress_high = Val 600, recovery_high = Null,
         day_summary = Val normal\<rparr>,
       \<lparr>DailyStressModel.day = ''2024-03-03'', stress_high = Val 600, recovery_high = Null,
         day_summary = Val stressful\<rparr>],
      next_token = Null\<rparr>) =
   stress_emoji @ '' **Stress**: 10 avg minutes/day, mostly normal\<newline>'' \<and>
   processStressData (Fulfilled \<lparr>data =
      [\<lparr>DailyStressModel.day = ''2024-03-01'', stress_high = Val 600, recovery_high = Null,
         day_summary = Val normal\<rparr>,
       \<lparr>DailyStressModel.day = ''2024-03-02'', stress_high = Val 600, recovery_high = Null,
         day_summary = Val stressful\<rparr>],
      next_token = Null\<rparr>) =
   stress_emoji @ '' **Stress**: 10 avg minutes/day, mostly stressful\<newline>''"
proof -
  let ?three = "\<lparr>data =
      [\<lparr>DailyStressModel.day = ''2024-03-01'', stress_high = Val 600, recovery_high = Null,
         day_summary = Val normal\<rparr>,
       \<lparr>DailyStressModel.day = ''2024-03-02'', stress_high = Val 600, recovery_high = Null,
         day_summary = Val normal\<rparr>,
       \<lparr>DailyStressModel.day = ''2024-03-03'', stress_high = Val 600, recovery_high = Null,
         day_summary = Val stressful\<rparr>],
      next_token = Null\<rparr>"
  let ?two = "\<lparr>data =
      [\<lparr>DailyStressModel.day = ''2024-03-01'', stress_high = Val 600, recovery_high = Null,
         day_summary = Val normal\<rparr>,
       \<lparr>DailyStressModel.day = ''2024-03-02'', stress_high = Val 600, recovery_high = Null,
         day_summary = Val stressful\<rparr>],
      next_token = Null\<rparr>"
  have three: "data ?three \<noteq> []" "present (map stress_high (data ?three)) \<noteq> []"
      "Undefined \<notin> set (map day_summary (data ?three))"
    by simp_all
  have two: "data ?two \<noteq> []" "present (map stress_high (data ?two)) \<noteq> []"
      "Undefined \<notin> set (map day_summary (data ?two))"
    by simp_all
  have l3: "most_frequent_label [normal, normal, stressful] = normal"
    by (simp add: most_frequent_label_def)
  have l2: "most_frequent_label [normal, stressful] = stressful"
    by (simp add: most_frequent_label_def)
  show ?thesis
    using stress_line_most_frequent_label [OF three, THEN conjunct1]
      stress_line_most_frequent_label [OF two, THEN conjunct1]
    by (simp add: round_mean_minutes l3 l2 toString_def digits.simps)
qed

text \<open>
  The claim as it was stated fails where no record has a label: the line then reports
  "N/A", which is not a day classification.
\<close>

theorem stress_line_label_counterexample:
  "processStressData (Fulfilled \<lparr>data =
      [\<lparr>DailyStressModel.day = ''2024-03-01'', stress_high = Val 600, recovery_high = Null,
         day_summary = Null\<rparr>],
      next_token = Null\<rparr>) =
   stress_emoji @ '' **Stress**: 10 avg minutes/day, mostly N/A\<newline>'' \<and>
   ''N/A'' \<notin> set (map summary_text [restored, normal, stressful])"
proof -
  have label: "mostCommonSummary
      [\<lparr>DailyStressModel.day = ''2024-03-01'', stress_high = Val 600, recovery_high = Null,
         day_summary = Null\<rparr>] = Null"
    by (simp add: mostCommonSummary_def)
  show ?thesis
    using processStressData_cases [of "Fulfilled \<lparr>data =
      [\<lparr>DailyStressModel.day = ''2024-03-01'', stress_high = Val 600, recovery_high = Null,
         day_summary = Null\<rparr>],
      next_token = Null\<rparr>"]
    by (simp add: round_mean_minutes label toString_def digits.simps)
qed

text \<open>
  A record without the day classification key is not removed by the filter on
  \<^verbatim>\<open>null\<close>; the sort moves it to the end and the line reports "N/A" although another
  record has a label.
\<close>

lemma stress_line_label_missing_key:
  "processStressData (Fulfilled \<lparr>data =
      [\<lparr>DailyStressModel.day = ''2024-03-01'', stress_high = Val 600, recovery_high = Null,
         day_summary = Val normal\<rparr>,
       \<lparr>DailyStressModel.day = ''2024-03-02'', stress_high = Val 600, recovery_high = Null,
         day_summary = Undefined\<rparr>],
      next_token = Null\<rparr>) =
   stress_emoji @ '' **Stress**: 10 avg minutes/day, mostly N/A\<newline>''"
proof -
  have label: "mostCommonSummary
      [\<lparr>DailyStressModel.day = ''2024-03-01'', stress_high = Val 600, recovery_high = Null,
         day_summary = Val normal\<rparr>,
       \<lparr>DailyStressModel.day = ''2024-03-02'', stress_high = Val 600, recovery_high = Null,
         day_summary = Undefined\<rparr>] = Undefined"
    by (simp add: mostCommonSummary_def Array_sort_def Array_pop_def stable_sort_def)
  show ?thesis
    using processStressData_cases [of "Fulfilled \<lparr>data =
      [\<lparr>DailyStressModel.day = ''2024-03-01'', stress_high = Val 600, recovery_high = Null,
         day_summary = Val normal\<rparr>,
       \<lparr>DailyStressModel.day = ''2024-03-02'', stress_high = Val 600, recovery_high = Null,
         day_summary = Undefined\<rparr>],
      next_token = Null\<rparr>"]
    by (simp add: round_mean_minutes label toString_def digits.simps)
qed

section \<open>The insights\<close>

lemma totalDataPoints_sum:
  "totalDataPoints sleepResponse activityResponse readinessResponse =
     record_count sleepResponse + record_count activityResponse + record_count readinessResponse"
  by (cases sleepResponse; cases activityResponse; cases readinessResponse)
     (simp_all add: totalDataPoints_def)

lemma failedRequests_nonempty:
  "(length (failedRequests s a st r) > 0) = (is_rejected s \<or> is_rejected a \<or> is_rejected st \<or> is_rejected r)"
  by (cases s; cases a; cases st; cases r) (simp_all add: failedRequests_def)

lemma checkFailedRequests_eq:
  "checkFailedRequests s a st r =
     (if is_rejected s \<or> is_rejected a \<or> is_rejected st \<or> is_rejected r
      then failed_requests_note else [])"
  unfolding checkFailedRequests_def failedRequests_nonempty by (rule refl)

text \<open>
  Claim C3. The coverage insight depends on the number of records of the sleep, activity
  and readiness outcomes only; a failed request counts as no record and the stress
  records are not counted. A total of 0 gives "No data found", a total of 1 or 2 gives
  "Limited data available", a total of 3 or more gives "Good data coverage". The insight
  is the end of the report.
\<close>

theorem coverage_insight:
  "checkDataAvailability sleepResponse activityResponse readinessResponse =
     (if record_count sleepResponse + record_count activityResponse +
           record_count readinessResponse = 0 then no_data_found
      else if record_count sleepResponse + record_count activityResponse +
           record_count readinessResponse < 3 then limited_data
      else good_coverage) \<and>
   suffix (checkDataAvailability sleepResponse activityResponse readinessResponse)
     (healthSummary dateRange sleepResponse activityResponse stressResponse readinessResponse)"
proof
  show "checkDataAvailability sleepResponse activityResponse readinessResponse =
     (if record_count sleepResponse + record_count activityResponse +
           record_count readinessResponse = 0 then no_data_found
      else if record_count sleepResponse + record_count activityResponse +
           record_count readinessResponse < 3 then limited_data
      else good_coverage)"
    unfolding checkDataAvailability_def totalDataPoints_sum by (rule refl)
  show "suffix (checkDataAvailability sleepResponse activityResponse readinessResponse)
     (healthSummary dateRange sleepResponse activityResponse stressResponse readinessResponse)"
    unfolding healthSummary_def suffix_def by (metis append.assoc)
qed

text \<open>
  Two records in total, with three stress records that do not count, give the limited
  insight; a third record gives the good one.
\<close>

theorem coverage_insight_witness:
  "checkDataAvailability
     (Fulfilled \<lparr>data = [\<lparr>DailySleepModel.day = ''2024-03-01'', DailySleepModel.score = Val 80\<rparr>],
        next_token = Null\<rparr>)
     (Fulfilled \<lparr>data = [\<lparr>DailyActivityModel.day = ''2024-03-01'',
        DailyActivityModel.score = Val 70, steps = 4000\<rparr>], next_token = Null\<rparr>)
     (Rejected (OtherError ''network'') :: DailyReadinessModel MultiDocumentResponse PromiseSettledResult)
   = limited_data \<and>
   suffix limited_data
     (healthSummary \<lparr>start_date = ''2024-03-01'', end_date = ''2024-03-07''\<rparr>
       (Fulfilled \<lparr>data = [\<lparr>DailySleepModel.day = ''2024-03-01'', DailySleepModel.score = Val 80\<rparr>],
          next_token = Null\<rparr>)
       (Fulfilled \<lparr>data = [\<lparr>DailyActivityModel.day = ''2024-03-01'',
          DailyActivityModel.score = Val 70, steps = 4000\<rparr>], next_token = Null\<rparr>)
       (Fulfilled \<lparr>data =
          [\<lparr>DailyStressModel.day = ''2024-03-01'', stress_high = Val 60, recovery_high = Null,
             day_summary = Val normal\<rparr>,
           \<lparr>DailyStressModel.day = ''2024-03-02'', stress_high = Val 60, recovery_high = Null,
             day_summary = Val normal\<rparr>,
           \<lparr>DailyStressModel.day = ''2024-03-03'', stress_high = Val 60, recovery_high = Null,
             day_summary = Val normal\<rparr>], next_token = Null\<rparr>)
       (Rejected (OtherError ''network''))) \<and>
   checkDataAvailability
     (Fulfilled \<lparr>data = [\<lparr>DailySleepModel.day = ''2024-03-01'', DailySleepModel.score = Val 80\<rparr>],
        next_token = Null\<rparr>)
     (Fulfilled \<lparr>data = [\<lparr>DailyActivityModel.day = ''2024-03-01'',
        DailyActivityModel.score = Val 70, steps = 4000\<rparr>], next_token = Null\<rparr>)
     (Fulfilled \<lparr>data = [\<lparr>DailyReadinessModel.day = ''2024-03-01'',
        DailyReadinessModel.score = Val 75\<rparr>], next_token = Null\<rparr>)
   = good_coverage"
  using coverage_insight
    [where sleepResponse = "Fulfilled \<lparr>data =
         [\<lparr>DailySleepModel.day = ''2024-03-01'', DailySleepModel.score = Val 80\<rparr>],
         next_token = Null\<rparr>"
       and activityResponse = "Fulfilled \<lparr>data = [\<lparr>DailyActivityModel.day = ''2024-03-01'',
         DailyActivityModel.score = Val 70, steps = 4000\<rparr>], next_token = Null\<rparr>"
       and readinessResponse = "Rejected (OtherError ''network'')"
       and dateRange = "\<lparr>start_date = ''2024-03-01'', end_date = ''2024-03-07''\<rparr>"
       and stressResponse = "Fulfilled \<lparr>data =
          [\<lparr>DailyStressModel.day = ''2024-03-01'', stress_high = Val 60, recovery_high = Null,
             day_summary = Val normal\<rparr>,
           \<lparr>DailyStressModel.day = ''2024-03-02'', stress_high = Val 60, recovery_high = Null,
             day_summary = Val normal\<rparr>,
           \<lparr>DailyStressModel.day = ''2024-03-03'', stress_high = Val 60, recovery_high = Null,
             day_summary = Val normal\<rparr>], next_token = Null\<rparr>"]
    coverage_insight
    [where sleepResponse = "Fulfilled \<lparr>data =
         [\<lparr>DailySleepModel.day = ''2024-03-01'', DailySleepModel.score = Val 80\<rparr>],
         next_token = Null\<rparr>"
       and activityResponse = "Fulfilled \<lparr>data = [\<lparr>DailyActivityModel.day = ''2024-03-01'',
         DailyActivityModel.score = Val 70, steps = 4000\<rparr>], next_token = Null\<rparr>"
       and readinessResponse = "Fulfilled \<lparr>data = [\<lparr>DailyReadinessModel.day = ''2024-03-01'',
        DailyReadinessModel.score = Val 75\<rparr>], next_token = Null\<rparr>"
       and dateRange = "\<lparr>start_date = ''2024-03-01'', end_date = ''2024-03-07''\<rparr>"
       and stressResponse = "Rejected (OtherError ''network'') :: DailyStressModel MultiDocumentResponse PromiseSettledResult"]
  by auto

text \<open>
  Claim C7. The note "Some data types may not be available" follows the heading of the
  insights if and only if at least one of the four requests was rejected.
\<close>

theorem failed_requests_insight:
  "healthSummary dateRange sleepResponse activityResponse stressResponse readinessResponse =
     chart_emoji @ '' **Comprehensive Health Summary**\<newline>\<newline>'' @
     calendar_emoji @ '' **Period**: '' @ DateRange.start_date dateRange @ '' to '' @
       DateRange.end_date dateRange @ ''\<newline>\<newline>'' @
     processSleepData sleepResponse @
     processActivityData activityResponse @
     processStressData stressResponse @
     processReadinessData readinessResponse @
     ''\<newline>'' @ bulb_emoji @ '' **Key Insights**:\<newline>'' @
     (if is_rejected sleepResponse \<or> is_rejected activityResponse \<or>
         is_rejected stressResponse \<or> is_rejected readinessResponse
      then failed_requests_note else []) @
     checkDataAvailability sleepResponse activityResponse readinessResponse \<and>
   (checkFailedRequests sleepResponse activityResponse stressResponse readinessResponse =
      failed_requests_note) =
   (is_rejected sleepResponse \<or> is_rejected activityResponse \<or>
    is_rejected stressResponse \<or> is_rejected readinessResponse)"
proof
  show "healthSummary dateRange sleepResponse activityResponse stressResponse readinessResponse =
     chart_emoji @ '' **Comprehensive Health Summary**\<newline>\<newline>'' @
     calendar_emoji @ '' **Period**: '' @ DateRange.start_date dateRange @ '' to '' @
       DateRange.end_date dateRange @ ''\<newline>\<newline>'' @
     processSleepData sleepResponse @
     processActivityData activityResponse @
     processStressData stressResponse @
     processReadinessData readinessResponse @
     ''\<newline>'' @ bulb_emoji @ '' **Key Insights**:\<newline>'' @
     (if is_rejected sleepResponse \<or> is_rejected activityResponse \<or>
         is_rejected stressResponse \<or> is_rejected readinessResponse
      then failed_requests_note else []) @
     checkDataAvailability sleepResponse activityResponse readinessResponse"
    unfolding healthSummary_def checkFailedRequests_eq by (rule refl)
  have "failed_requests_note \<noteq> []"
    by (simp add: failed_requests_note_def)
  then show "(checkFailedRequests sleepResponse activityResponse stressResponse readinessResponse =
      failed_requests_note) =
   (is_rejected sleepResponse \<or> is_rejected activityResponse \<or>
    is_rejected stressResponse \<or> is_rejected readinessResponse)"
    unfolding checkFailedRequests_eq by auto
qed

text \<open>One rejected request adds the note; four fulfilled requests do not.\<close>

theorem failed_requests_insight_witness:
  "checkFailedRequests
     (Fulfilled \<lparr>data = [] :: DailySleepModel list, next_token = Null\<rparr>)
     (Fulfilled \<lparr>data = [] :: DailyActivityModel list, next_token = Null\<rparr>)
     (Rejected (OtherError ''network'') :: DailyStressModel MultiDocumentResponse PromiseSettledResult)
     (Fulfilled \<lparr>data = [] :: DailyReadinessModel list, next_token = Null\<rparr>)
   = failed_requests_note \<and>
   checkFailedRequests
     (Fulfilled \<lparr>data = [] :: DailySleepModel list, next_token = Null\<rparr>)
     (Fulfilled \<lparr>data = [] :: DailyActivityModel list, next_token = Null\<rparr>)
     (Fulfilled \<lparr>data = [] :: DailyStressModel list, next_token = Null\<rparr>)
     (Fulfilled \<lparr>data = [] :: DailyReadinessModel list, next_token = Null\<rparr>)
   \<noteq> failed_requests_note"
  using failed_requests_insight
    [where sleepResponse = "Fulfilled \<lparr>data = [], next_token = Null\<rparr>"
       and activityResponse = "Fulfilled \<lparr>data = [], next_token = Null\<rparr>"
       and stressResponse = "Rejected (OtherError ''network'')"
       and readinessResponse = "Fulfilled \<lparr>data = [], next_token = Null\<rparr>"
       and dateRange = "\<lparr>start_date = ''2024-03-01'', end_date = ''2024-03-07''\<rparr>"]
    failed_requests_insight
    [where sleepResponse = "Fulfilled \<lparr>data = [], next_token = Null\<rparr>"
       and activityResponse = "Fulfilled \<lparr>data = [], next_token = Null\<rparr>"
       and stressResponse = "Fulfilled \<lparr>data = [], next_token = Null\<rparr>"
       and readinessResponse = "Fulfilled \<lparr>data = [], next_token = Null\<rparr>"
       and dateRange = "\<lparr>start_date = ''2024-03-01'', end_date = ''2024-03-07''\<rparr>"]
  by simp

section \<open>The report is always produced\<close>





lemma healthSummary_all_rejected:
  "healthSummary dateRange (Rejected e1) (Rejected e2) (Rejected e3) (Rejected e4) =
     all_failed_report dateRange"
  by (simp add: healthSummary_def all_failed_report_def processSleepData_def
        processActivityData_def processStressData_def processReadinessData_def
        checkFailedRequests_def failedRequests_def checkDataAvailability_def
        totalDataPoints_def failed_requests_note_def no_data_found_def)

lemma executeGetOuraHealthSummary_body:
  "executeGetOuraHealthSummary resolve API_TOKEN fetchSleep fetchActivity fetchStress
       fetchReadiness period start_date_arg end_date_arg =
     (let dateRange =
            (if truthy start_date_arg \<and> truthy end_date_arg
             then \<lparr>start_date = the start_date_arg, end_date = the end_date_arg\<rparr>
             else resolve period);
          params = [(''start_date'', DateRange.start_date dateRange),
                    (''end_date'', DateRange.end_date dateRange)]
      in healthSummary dateRange
           (settled (makeOuraRequest API_TOKEN fetchSleep ''/usercollection/daily_sleep'' params))
           (settled (makeOuraRequest API_TOKEN fetchActivity ''/usercollection/daily_activity'' params))
           (settled (makeOuraRequest API_TOKEN fetchStress ''/usercollection/daily_stress'' params))
           (settled (makeOuraRequest API_TOKEN fetchReadiness ''/usercollection/daily_readiness'' params)))"
  by (simp add: executeGetOuraHealthSummary_def healthSummaryTry_def Let_def)



section \<open>A missing token\<close>

lemma makeOuraRequest_without_token:
  "\<not> truthy API_TOKEN \<Longrightarrow>
   makeOuraRequest API_TOKEN fetch endpoint params =
     Inl (OuraAPIUserError ''Oura API token not configured'' setup_required_message)"
  by (simp add: makeOuraRequest_def)

lemma all_failed_report_not_setup: "all_failed_report dateRange \<noteq> setup_required_message"
  by (simp add: all_failed_report_def setup_required_message_def chart_emoji_def)

text \<open>
  Claim C10. Without a configured token every request is rejected before the network is
  used, the join settles all four, and the function returns the report of the worst case
  instead of the message that asks for the setup.
\<close>

theorem missing_token_degraded_report:
  assumes "\<not> truthy API_TOKEN"
  shows "executeGetOuraHealthSummary resolve API_TOKEN fetchSleep fetchActivity fetchStress
           fetchReadiness period start_date_arg end_date_arg =
         all_failed_report
           (if truthy start_date_arg \<and> truthy end_date_arg
            then \<lparr>start_date = the start_date_arg, end_date = the end_date_arg\<rparr>
            else resolve period) \<and>
         executeGetOuraHealthSummary resolve API_TOKEN fetchSleep fetchActivity fetchStress
           fetchReadiness period start_date_arg end_date_arg \<noteq> setup_required_message"
proof -
  have report: "executeGetOuraHealthSummary resolve API_TOKEN fetchSleep fetchActivity fetchStress
           fetchReadiness period start_date_arg end_date_arg =
         all_failed_report
           (if truthy start_date_arg \<and> truthy end_date_arg
            then \<lparr>start_date = the start_date_arg, end_date = the end_date_arg\<rparr>
            else resolve period)"
    unfolding executeGetOuraHealthSummary_body Let_def
      makeOuraRequest_without_token [OF assms] settled.simps
    by (rule healthSummary_all_rejected)
  show ?thesis
    unfolding report using all_failed_report_not_setup by simp
qed

text \<open>No token, and a network that would have answered the sleep request.\<close>

theorem missing_token_degraded_report_witness:
  "\<not> truthy None \<and>
   executeGetOuraHealthSummary
     (\<lambda>period. \<lparr>start_date = ''2024-03-01'', end_date = ''2024-03-07''\<rparr>) None
     (\<lambda>url params headers. Inr \<lparr>ok = True, status = 200, statusText = ''OK'', text_body = Inr [],
        json_body = Inr \<lparr>data = [\<lparr>DailySleepModel.day = ''2024-03-01'',
          DailySleepModel.score = Val 80\<rparr>], next_token = Null\<rparr>\<rparr>)
     (\<lambda>url params headers. Inl (OtherError ''network''))
     (\<lambda>url params headers. Inl (OtherError ''network''))
     (\<lambda>url params headers. Inl (OtherError ''network''))
     ''week'' None None =
   all_failed_report \<lparr>start_date = ''2024-03-01'', end_date = ''2024-03-07''\<rparr> \<and>
   executeGetOuraHealthSummary
     (\<lambda>period. \<lparr>start_date = ''2024-03-01'', end_date = ''2024-03-07''\<rparr>) None
     (\<lambda>url params headers. Inr \<lparr>ok = True, status = 200, statusText = ''OK'', text_body = Inr [],
        json_body = Inr \<lparr>data = [\<lparr>DailySleepModel.day = ''2024-03-01'',
          DailySleepModel.score = Val 80\<rparr>], next_token = Null\<rparr>\<rparr>)
     (\<lambda>url params headers. Inl (OtherError ''network''))
     (\<lambda>url params headers. Inl (OtherError ''network''))
     (\<lambda>url params headers. Inl (OtherError ''network''))
     ''week'' None None \<noteq> setup_required_message"
proof -
  have token: "\<not> truthy None"
    by (simp add: truthy_def)
  show ?thesis
    using token missing_token_degraded_report [OF token,
      where resolve = "\<lambda>period. \<lparr>start_date = ''2024-03-01'', end_date = ''2024-03-07''\<rparr>"
        and fetchSleep = "\<lambda>url params headers. Inr \<lparr>ok = True, status = 200, statusText = ''OK'',
          text_body = Inr [], json_body = Inr \<lparr>data = [\<lparr>DailySleepModel.day = ''2024-03-01'',
          DailySleepModel.score = Val 80\<rparr>], next_token = Null\<rparr>\<rparr>"
        and fetchActivity = "\<lambda>url params headers. Inl (OtherError ''network'')"
        and fetchStress = "\<lambda>url params headers. Inl (OtherError ''network'')"
        and fetchReadiness = "\<lambda>url params headers. Inl (OtherError ''network'')"
        and period = "''week''" and start_date_arg = None and end_date_arg = None]
    by auto
qed

section \<open>Explicit bounds\<close>





section \<open>The period resolver\<close>

lemma days_in_month_bounds: "28 \<le> days_in_month y m \<and> days_in_month y m \<le> 31"
  by (simp add: days_in_month_def)

lemma valid_previous_day: "valid_date d \<Longrightarrow> valid_date (previous_day d)"
proof -
  assume v: "valid_date d"
  then have m: "1 \<le> cal_month d" "cal_month d \<le> 12"
    and dd: "1 \<le> cal_day d" "cal_day d \<le> days_in_month (cal_year d) (cal_month d)"
    by (simp_all add: valid_date_def)
  show ?thesis
  proof (cases "1 < cal_day d")
    case True
    then have "previous_day d = d\<lparr>cal_day := cal_day d - 1\<rparr>"
      by (simp add: previous_day_def)
    moreover have "1 \<le> cal_day d - 1" "cal_day d - 1 \<le> days_in_month (cal_year d) (cal_month d)"
      using True dd by arith+
    ultimately show ?thesis using m by (simp add: valid_date_def)
  next
    case first: False
    show ?thesis
    proof (cases "1 < cal_month d")
      case True
      then have p: "previous_day d =
          \<lparr>cal_year = cal_year d, cal_month = cal_month d - 1,
           cal_day = days_in_month (cal_year d) (cal_month d - 1)\<rparr>"
        using first by (simp add: previous_day_def)
      have "28 \<le> days_in_month (cal_year d) (cal_month d - 1)"
        using days_in_month_bounds by blast
      moreover have "1 \<le> cal_month d - 1" "cal_month d - 1 \<le> 12"
        using True m by arith+
      ultimately show ?thesis unfolding p by (simp add: valid_date_def)
    next
      case False
      then have p: "previous_day d = \<lparr>cal_year = cal_year d - 1, cal_month = 12, cal_day = 31\<rparr>"
        using first by (simp add: previous_day_def)
      have "days_in_month (cal_year d - 1) 12 = 31"
        by (simp add: days_in_month_def)
      then show ?thesis unfolding p by (simp add: valid_date_def)
    qed
  qed
qed

lemma date_le_refl: "date_le d d"
  by (simp add: date_le_def)

lemma date_le_trans: "date_le a b \<Longrightarrow> date_le b c \<Longrightarrow> date_le a c"
  by (auto simp: date_le_def)

lemma previous_day_le: "date_le (previous_day d) d"
  by (auto simp: date_le_def previous_day_def)

lemma minus_days_valid: "valid_date d \<Longrightarrow> valid_date (minus_days n d)"
  by (induction n arbitrary: d) (simp_all add: valid_previous_day)

lemma minus_days_le: "date_le (minus_days n d) d"
proof (induction n arbitrary: d)
  case 0
  show ?case by (simp add: date_le_refl)
next
  case (Suc n)
  have "date_le (minus_days n (previous_day d)) (previous_day d)" by (rule Suc.IH)
  then show ?case using previous_day_le [of d] by (auto intro: date_le_trans)
qed

lemma next_previous_day: "valid_date d \<Longrightarrow> next_day (previous_day d) = d"
  by (auto simp: valid_date_def previous_day_def next_day_def days_in_month_def)

lemma last_days_from: "last (days_from (Suc n) d) = (next_day ^^ n) d"
proof (induction n arbitrary: d)
  case 0
  show ?case by simp
next
  case (Suc n)
  have "last (days_from (Suc (Suc n)) d) = last (days_from (Suc n) (next_day d))"
    by simp
  also have "\<dots> = (next_day ^^ n) (next_day d)" by (rule Suc.IH)
  finally show ?case by (simp add: funpow_swap1)
qed

lemma next_minus_days: "valid_date d \<Longrightarrow> (next_day ^^ n) (minus_days n d) = d"
proof (induction n arbitrary: d)
  case 0
  show ?case by simp
next
  case (Suc n)
  have "(next_day ^^ n) (minus_days n (previous_day d)) = previous_day d"
    using Suc.prems by (intro Suc.IH valid_previous_day)
  then show ?case using Suc.prems by (simp add: next_previous_day)
qed

lemma days_from_minus_days:
  "valid_date d \<Longrightarrow> last (days_from (Suc n) (minus_days n d)) = d"
  by (simp only: last_days_from next_minus_days)

lemma length_days_from: "length (days_from n d) = n"
  by (induction n arbitrary: d) simp_all

lemma minus_days_in_december:
  "cal_month d = 12 \<Longrightarrow> k < cal_day d \<Longrightarrow> minus_days k d = d\<lparr>cal_day := cal_day d - k\<rparr>"
proof (induction k arbitrary: d)
  case 0
  show ?case by simp
next
  case (Suc k)
  have p: "previous_day d = d\<lparr>cal_day := cal_day d - 1\<rparr>"
    using Suc.prems by (simp add: previous_day_def)
  have "minus_days k (previous_day d) = (previous_day d)\<lparr>cal_day := cal_day (previous_day d) - k\<rparr>"
    using Suc.prems by (intro Suc.IH) (simp_all add: p)
  then show ?case by (simp add: p)
qed

lemma minus_days_year:
  "valid_date d \<Longrightarrow> n \<le> 31 \<Longrightarrow>
   cal_year (minus_days n d) = cal_year d \<or> cal_year (minus_days n d) = cal_year d - 1"
proof (induction n arbitrary: d)
  case 0
  show ?case by simp
next
  case (Suc n)
  show ?case
  proof (cases "cal_day d = 1 \<and> cal_month d = 1")
    case True
    then have p: "previous_day d = \<lparr>cal_year = cal_year d - 1, cal_month = 12, cal_day = 31\<rparr>"
      by (simp add: previous_day_def)
    have "minus_days n (previous_day d) = (previous_day d)\<lparr>cal_day := cal_day (previous_day d) - n\<rparr>"
      using Suc.prems by (intro minus_days_in_december) (simp_all add: p)
    then show ?thesis by (simp add: p)
  next
    case False
    then have y: "cal_year (previous_day d) = cal_year d"
      using Suc.prems by (auto simp: previous_day_def valid_date_def)
    have "cal_year (minus_days n (previous_day d)) = cal_year (previous_day d) \<or>
          cal_year (minus_days n (previous_day d)) = cal_year (previous_day d) - 1"
      using Suc.prems by (intro Suc.IH valid_previous_day) simp_all
    then show ?thesis by (simp add: y)
  qed
qed

lemma digit_below_ten: "n < 10 \<Longrightarrow> is_digit (''0123456789'' ! n)"
  unfolding is_digit_def by (rule nth_mem) simp

lemma digit_is_digit: "is_digit (''0123456789'' ! (k mod 10))"
  by (rule digit_below_ten) simp

lemma formatDate_conforms: "conforms_YYYY_MM_DD (formatDate d)"
  by (simp add: formatDate_def Let_def digit_is_digit)

lemma digit_values: "\<forall>n \<in> set [0..<10]. digit_value (''0123456789'' ! n) = n"
  by code_simp

lemma digit_value_nth: "n < 10 \<Longrightarrow> digit_value (''0123456789'' ! n) = n"
  using digit_values by simp

lemma two_digits: "m < 100 \<Longrightarrow> 10 * (m div 10 mod 10) + m mod 10 = (m::nat)"
proof -
  assume "m < 100"
  then have "m div 10 < 10" by simp
  then have "m div 10 mod 10 = m div 10" by simp
  then show ?thesis by simp
qed

lemma four_digits:
  assumes "y < 10000"
  shows "1000 * (y div 1000 mod 10) + 100 * (y div 100 mod 10) + 10 * (y div 10 mod 10) +
         y mod 10 = (y::nat)"
proof -
  have h: "y div 100 = y div 10 div 10" "y div 1000 = y div 10 div 10 div 10"
    by (simp_all add: div_mult2_eq [symmetric])
  define q where "q = y div 10"
  define r where "r = q div 10"
  define t where "t = r div 10"
  have "t < 10" using assms unfolding t_def r_def q_def by simp
  then have t: "t mod 10 = t" by simp
  have y: "y = 10 * q + y mod 10" unfolding q_def by simp
  have q: "q = 10 * r + q mod 10" unfolding r_def by simp
  have r: "r = 10 * t + r mod 10" unfolding t_def by simp
  have "1000 * (t mod 10) + 100 * (r mod 10) + 10 * (q mod 10) + y mod 10 = y"
    using y q r t by linarith
  then show ?thesis
    unfolding h q_def r_def t_def .
qed

lemma parse_formatDate:
  assumes "0 \<le> cal_year d" and "cal_year d \<le> 9999" and "valid_date d"
  shows "parseDate (formatDate d) = Some d"
proof -
  have y: "nat (cal_year d) < 10000" using assms(1,2) by simp
  have m: "cal_month d < 100" using assms(3) by (simp add: valid_date_def)
  have "cal_day d \<le> 31"
    using assms(3) days_in_month_bounds [of "cal_year d" "cal_month d"]
    by (simp add: valid_date_def)
  then have dd: "cal_day d < 100" by simp
  have c: "conforms_YYYY_MM_DD (formatDate d)" by (rule formatDate_conforms)
  have v: "digit_value (''0123456789'' ! (k mod 10)) = k mod 10" for k
    by (rule digit_value_nth) simp
  have "parseDate (formatDate d) =
      Some \<lparr>cal_year = int (1000 * (nat (cal_year d) div 1000 mod 10) +
                 100 * (nat (cal_year d) div 100 mod 10) +
                 10 * (nat (cal_year d) div 10 mod 10) + nat (cal_year d) mod 10),
            cal_month = 10 * (cal_month d div 10 mod 10) + cal_month d mod 10,
            cal_day = 10 * (cal_day d div 10 mod 10) + cal_day d mod 10\<rparr>"
    using c unfolding formatDate_def Let_def by (simp add: v)
  also have "\<dots> = Some \<lparr>cal_year = int (nat (cal_year d)), cal_month = cal_month d,
      cal_day = cal_day d\<rparr>"
    by (simp only: four_digits [OF y] two_digits [OF m] two_digits [OF dd])
  finally show ?thesis
    using assms(1) by simp
qed

lemma periodDates_cases:
  "periodDates today period = (today, today) \<or>
   periodDates today period = (minus_days 1 today, minus_days 1 today) \<or>
   periodDates today period = (minus_days 6 today, today) \<or>
   periodDates today period = (minus_days 29 today, today)"
  by (simp add: periodDates_def)

lemma periodDates_facts:
  assumes "valid_date today" and "1 \<le> cal_year today" and "cal_year today \<le> 9999"
  shows "valid_date (fst (periodDates today period)) \<and>
         valid_date (snd (periodDates today period)) \<and>
         date_le (fst (periodDates today period)) (snd (periodDates today period)) \<and>
         0 \<le> cal_year (fst (periodDates today period)) \<and>
         cal_year (fst (periodDates today period)) \<le> 9999 \<and>
         0 \<le> cal_year (snd (periodDates today period)) \<and>
         cal_year (snd (periodDates today period)) \<le> 9999"
proof -
  have earlier: "valid_date (minus_days n today) \<and> date_le (minus_days n today) today \<and>
      0 \<le> cal_year (minus_days n today) \<and> cal_year (minus_days n today) \<le> 9999"
    if "n \<le> 31" for n
    using minus_days_valid [OF assms(1), of n] minus_days_le [of n today]
      minus_days_year [OF assms(1) that] assms(2,3)
    by auto
  have b1: "(1::nat) \<le> 31" and b6: "(6::nat) \<le> 31" and b29: "(29::nat) \<le> 31"
    by simp_all
  from periodDates_cases [of today period] show ?thesis
    using earlier [OF b1] earlier [OF b6] earlier [OF b29] assms
    by (elim disjE) (simp_all add: date_le_refl)
qed

text \<open>
  Claim C8. For a current date between the years 1 and 9999 and any period token, the
  resolver returns two strings of the form YYYY-MM-DD that denote valid calendar dates,
  the start not after the end. The token "week" gives the seven days that end today,
  from today minus 6 days, and a token outside the vocabulary gives the range of "week".
\<close>

theorem period_resolver_range:
  assumes "valid_date today" and "1 \<le> cal_year today" and "cal_year today \<le> 9999"
  shows "getDateRange today ''week'' =
           \<lparr>start_date = formatDate (minus_days 6 today), end_date = formatDate today\<rparr> \<and>
         (period \<noteq> ''today'' \<and> period \<noteq> ''yesterday'' \<and> period \<noteq> ''week'' \<and>
          period \<noteq> ''month'' \<longrightarrow>
            getDateRange today period = getDateRange today ''week'') \<and>
         length (days_from 7 (minus_days 6 today)) = 7 \<and>
         last (days_from 7 (minus_days 6 today)) = today \<and>
         conforms_YYYY_MM_DD (start_date (getDateRange today period)) \<and>
         conforms_YYYY_MM_DD (end_date (getDateRange today period)) \<and>
         parseDate (start_date (getDateRange today period)) =
           Some (fst (periodDates today period)) \<and>
         parseDate (end_date (getDateRange today period)) =
           Some (snd (periodDates today period)) \<and>
         valid_date (fst (periodDates today period)) \<and>
         valid_date (snd (periodDates today period)) \<and>
         date_le (fst (periodDates today period)) (snd (periodDates today period))"
proof -
  have week: "getDateRange today ''week'' =
           \<lparr>start_date = formatDate (minus_days 6 today), end_date = formatDate today\<rparr>"
    by (simp add: getDateRange_def periodDates_def)
  have "last (days_from (Suc 6) (minus_days 6 today)) = today"
    using assms(1) by (rule days_from_minus_days)
  then have seven: "last (days_from 7 (minus_days 6 today)) = today"
    by (simp only: eval_nat_numeral)
  have fallback: "period \<noteq> ''today'' \<and> period \<noteq> ''yesterday'' \<and> period \<noteq> ''week'' \<and>
          period \<noteq> ''month'' \<longrightarrow>
            getDateRange today period = getDateRange today ''week''"
    by (simp add: getDateRange_def periodDates_def)
  have formats: "conforms_YYYY_MM_DD (start_date (getDateRange today period))"
      "conforms_YYYY_MM_DD (end_date (getDateRange today period))"
    by (simp_all add: getDateRange_def formatDate_conforms)
  note dates = periodDates_facts [OF assms, of period]
  from dates have valid: "valid_date (fst (periodDates today period))"
      "valid_date (snd (periodDates today period))"
    and ordered: "date_le (fst (periodDates today period)) (snd (periodDates today period))"
    and years: "0 \<le> cal_year (fst (periodDates today period))"
      "cal_year (fst (periodDates today period)) \<le> 9999"
      "0 \<le> cal_year (snd (periodDates today period))"
      "cal_year (snd (periodDates today period)) \<le> 9999"
    by simp_all
  have parsed: "parseDate (start_date (getDateRange today period)) =
                  Some (fst (periodDates today period))"
      "parseDate (end_date (getDateRange today period)) =
                  Some (snd (periodDates today period))"
    using parse_formatDate [OF years(1,2) valid(1)] parse_formatDate [OF years(3,4) valid(2)]
    by (simp_all add: getDateRange_def)
  show ?thesis
    by (intro conjI week fallback seven length_days_from formats parsed valid ordered)
qed

text \<open>
  On 2 March 2024 the week starts on 25 February, across the leap day; an unknown token
  resolves to the same range.
\<close>

theorem period_resolver_range_witness:
  "valid_date \<lparr>cal_year = 2024, cal_month = 3, cal_day = 2\<rparr> \<and>
   getDateRange \<lparr>cal_year = 2024, cal_month = 3, cal_day = 2\<rparr> ''week'' =
     \<lparr>start_date = ''2024-02-25'', end_date = ''2024-03-02''\<rparr> \<and>
   getDateRange \<lparr>cal_year = 2024, cal_month = 3, cal_day = 2\<rparr> ''fortnight'' =
     \<lparr>start_date = ''2024-02-25'', end_date = ''2024-03-02''\<rparr>"
proof -
  have v: "valid_date \<lparr>cal_year = 2024, cal_month = 3, cal_day = 2\<rparr>"
    by (simp add: valid_date_def days_in_month_def)
  have y: "1 \<le> cal_year \<lparr>cal_year = 2024, cal_month = 3, cal_day = 2\<rparr>"
      "cal_year \<lparr>cal_year = 2024, cal_month = 3, cal_day = 2\<rparr> \<le> 9999"
    by simp_all
  have earlier: "minus_days 6 \<lparr>cal_year = 2024, cal_month = 3, cal_day = 2\<rparr> =
      \<lparr>cal_year = 2024, cal_month = 2, cal_day = 25\<rparr>"
    by (simp add: eval_nat_numeral previous_day_def days_in_month_def leap_year_def)
  have f1: "formatDate \<lparr>cal_year = 2024, cal_month = 2, cal_day = 25\<rparr> = ''2024-02-25''"
    by (simp add: formatDate_def)
  have f2: "formatDate \<lparr>cal_year = 2024, cal_month = 3, cal_day = 2\<rparr> = ''2024-03-02''"
    by (simp add: formatDate_def)
  note r = period_resolver_range [OF v y, of "''fortnight''"]
  note week = r [THEN conjunct1]
  note r [THEN conjunct2, THEN conjunct1]
  then have other: "getDateRange \<lparr>cal_year = 2024, cal_month = 3, cal_day = 2\<rparr> ''fortnight'' =
      getDateRange \<lparr>cal_year = 2024, cal_month = 3, cal_day = 2\<rparr> ''week''"
    by simp
  show ?thesis
    using v by (simp add: other week earlier f1 f2)
qed

end
